theory Spec2Isabelle
  imports Complex_Main "HOL-Library.Log_Nat" "HOL-Library.AList" "HOL-Library.Monad_Syntax"
begin

section \<open>Control-flow flattening of Scratch scripts (src/transforms/cff.ts)\<close>

text \<open>
  The pass rewrites a structured script into a state machine: \<open>decomposeToCFG\<close> cuts the
  script into numbered states, \<open>buildStepFunction\<close> emits a comparison tree that
  dispatches on the program counter, \<open>buildRunFunction\<close> emits the driver that registers
  a thread, steps it and removes it again.

  Numbers of the source are JavaScript doubles. Every number the pass computes with is an
  integer of magnitude below \<open>2^53\<close>, where doubles are exact; program counters are
  modelled as \<open>int\<close>, values of the running project as \<open>real\<close>.
\<close>

subsection \<open>Sources of randomness and of fresh identifiers (uid.ts)\<close>

text \<open>
  \<open>Math.random()\<close> is a stream of numbers in \<open>[0, 1)\<close>, read at a position that moves
  forward with each call. \<open>uid()\<close> and \<open>confusableName()\<close> are random strings; the
  identifiers that emitted code mentions are read from a second stream. Identifiers of
  the emitted blocks themselves are not represented: emitted code is a term.
\<close>

record gen =
  rndSrc :: "nat \<Rightarrow> real"
  rndPos :: nat
  uidSrc :: "nat \<Rightarrow> string"
  uidPos :: nat

definition mathRandom :: "gen \<Rightarrow> real \<times> gen" where
  "mathRandom g = (rndSrc g (rndPos g), g\<lparr>rndPos := Suc (rndPos g)\<rparr>)"

definition uid :: "gen \<Rightarrow> string \<times> gen" where
  "uid g = (uidSrc g (uidPos g), g\<lparr>uidPos := Suc (uidPos g)\<rparr>)"

definition randomNumber :: "real \<Rightarrow> real \<Rightarrow> gen \<Rightarrow> real \<times> gen" where
  "randomNumber lo hi g = (case mathRandom g of (r, g') \<Rightarrow> (r * (hi - lo) + lo, g'))"

definition randomInt :: "int \<Rightarrow> int \<Rightarrow> gen \<Rightarrow> int \<times> gen" where
  "randomInt lo hi g =
     (case randomNumber (real_of_int lo) (real_of_int (hi + 1)) g of (x, g') \<Rightarrow> (\<lfloor>x\<rfloor>, g'))"

definition randomBool :: "gen \<Rightarrow> bool \<times> gen" where
  "randomBool g = (case mathRandom g of (r, g') \<Rightarrow> (r < 1 / 2, g'))"

definition PC_MIN :: int where "PC_MIN = - 10000000000000"
definition PC_MAX :: int where "PC_MAX = 10000000000000"
definition EXIT_PC :: int where "EXIT_PC = 0"

subsection \<open>Input slots of a block and the states of the decomposition\<close>

text \<open>
  The second element of an input array of the project file: the identifier of the block
  plugged in, an inline primitive (kept by its text), or nothing.
\<close>

datatype inputval = RefId string | InlinePrim string | NullVal

text \<open>JavaScript truthiness of such a value, and \<open>v || ''\<close>.\<close>

fun truthy :: "inputval \<Rightarrow> bool" where
  "truthy (RefId s) = (s \<noteq> [])"
| "truthy (InlinePrim p) = True"
| "truthy NullVal = False"

definition orEmpty :: "inputval \<Rightarrow> inputval" where
  "orEmpty v = (if truthy v then v else RefId [])"

datatype branchInfo =
  BranchInfo (conditionBlockId: inputval) (truePc: int) (falsePc: int)

datatype repeatInitInfo =
  RepeatInitInfo (countExprBlockId: inputval) (ri_loopStaticId: string)

datatype repeatCheckInfo =
  RepeatCheckInfo (rc_loopStaticId: string) (rc_bodyPc: int) (rc_exitPc: int)

datatype waitStartInfo =
  WaitStartInfo (durationExprBlockId: string) (ws_pollPc: int)

datatype waitPollInfo =
  WaitPollInfo (wp_continuationPc: int) (isTimer: bool)

datatype broadcastWaitStartInfo =
  BroadcastWaitStartInfo (broadcastExprBlockId: string) (bws_pollPc: int)

datatype forEachInitInfo =
  ForEachInitInfo (valueExprBlockId: inputval) (fi_loopCounterStaticId: string)
    (fi_loopBoundStaticId: string)

datatype forEachCheckInfo =
  ForEachCheckInfo (varName: string) (varId: "string option")
    (fc_loopCounterStaticId: string) (fc_loopBoundStaticId: string)
    (fc_bodyPc: int) (fc_exitPc: int)

record CFGState =
  pc :: int
  bodyBlockIds :: "string list"
  nextPc :: int
  branch :: "branchInfo option"
  repeatInit :: "repeatInitInfo option"
  repeatCheck :: "repeatCheckInfo option"
  isTerminal :: bool
  waitStart :: "waitStartInfo option"
  waitPoll :: "waitPollInfo option"
  broadcastWaitStart :: "broadcastWaitStartInfo option"
  forEachInit :: "forEachInitInfo option"
  forEachCheck :: "forEachCheckInfo option"
  isDead :: bool

text \<open>A state with only the three mandatory fields and \<open>isDead\<close>, as an object literal
  of the source that sets nothing else.\<close>

definition plainState :: "int \<Rightarrow> string list \<Rightarrow> int \<Rightarrow> bool \<Rightarrow> CFGState" where
  "plainState p body n dead =
     \<lparr> pc = p, bodyBlockIds = body, nextPc = n, branch = None, repeatInit = None,
       repeatCheck = None, isTerminal = False, waitStart = None, waitPoll = None,
       broadcastWaitStart = None, forEachInit = None, forEachCheck = None,
       isDead = dead \<rparr>"

subsection \<open>Emitted code\<close>

text \<open>
  The blocks that \<open>BlockBuilder\<close> (blocks.ts) creates, as terms: a reporter is an
  expression, a stack block a statement, a substack a list of statements. Variables,
  lists and broadcasts are named by their identifiers. \<open>InputRef\<close> is an operand taken
  over from the script being flattened, \<open>OrigBlock\<close> a statement taken over from it.
\<close>

datatype mathOpcode = operator_add | operator_subtract | operator_multiply | operator_divide

datatype cmpOpcode = operator_lt | operator_gt | operator_equals

datatype expr =
    NumberLiteral int
  | TextLiteral string
  | ReadVariable string
  | ArgumentReporter string
  | ItemOfList string expr
  | ItemNumOfList string expr
  | LengthOfList string
  | MathOp mathOpcode expr expr
  | Comparison cmpOpcode expr expr
  | OperatorJoin expr expr
  | MathopCeiling expr
  | OperatorRandom expr expr
  | InputRef inputval

datatype stmt =
    SetVariable string expr
  | AddToList string expr
  | DeleteOfList string expr
  | DeleteAllOfList string
  | ReplaceItemOfList string expr expr
  | ControlIf expr "stmt list"
  | ControlIfElse expr "stmt list" "stmt list"
  | RepeatUntil expr "stmt list"
  | EventBroadcast string
  | EventBroadcastAndWait expr
  | ControlWait expr
  | ProcedureCall string "expr list"
  | OrigBlock string

text \<open>
  A block handed around by its identifier together with the blocks already linked after
  it through \<open>next\<close>. Linking a list of such blocks (\<open>setNext(blocks[i], blocks[i+1])\<close> for
  all but the last) overwrites the \<open>next\<close> of every block but the last one, so only the
  last keeps what was linked after it.
\<close>

type_synonym chainHead = "stmt \<times> stmt list"

fun chainBlocks :: "chainHead list \<Rightarrow> stmt list" where
  "chainBlocks [] = []"
| "chainBlocks [(h, t)] = h # t"
| "chainBlocks ((h, t) # b # bs) = h # chainBlocks (b # bs)"

definition single :: "stmt \<Rightarrow> chainHead" where
  "single s = (s, [])"

subsection \<open>Shared lists of a target and the context of one script\<close>

record TargetCFFLists =
  pcIdId :: string
  pcValId :: string
  counterKeyId :: string
  counterValId :: string
  waitFlagId :: string
  bcastPendingMsgId :: string
  waitQueueId :: string
  waitBroadcastId :: string
  startBroadcastId :: string
  hasTimerWait :: bool
  hasBroadcastWait :: bool

record ScriptCFFContext =
  lists :: TargetCFFLists
  runProccode :: string
  runArgNames :: "string list"
  runArgTypes :: "string list"
  stepProccode :: string
  stepArgNames :: "string list"
  cachedPcVarId :: string
  keepGoingVarId :: string
  baseIndexVarId :: string

text \<open>The fields of the configuration that the pass reads (\<open>config.cff\<close> and, for the
  decoy states, \<open>config.deadCode\<close>).\<close>

record cffConfig =
  enabled :: bool
  deadStatesPerScript :: nat
  minBlocksToFlatten :: nat
  flattenProcedures :: bool
  obfuscatePcTransitions :: bool
  minChainLength :: int
  maxChainLength :: int
  dynamicDeadCode :: bool

subsection \<open>Writing the next program counter\<close>

definition writePcToList :: "ScriptCFFContext \<Rightarrow> expr \<Rightarrow> stmt" where
  "writePcToList ctx valueBlock =
     ReplaceItemOfList (pcValId (lists ctx)) (ReadVariable (baseIndexVarId ctx)) valueBlock"

definition readPcFromList :: "ScriptCFFContext \<Rightarrow> expr" where
  "readPcFromList ctx = ReadVariable (cachedPcVarId ctx)"

definition buildObfuscatedPcExpr ::
  "ScriptCFFContext \<Rightarrow> int \<Rightarrow> int \<Rightarrow> gen \<Rightarrow> expr \<times> gen" where
  "buildObfuscatedPcExpr ctx currentPc nextPc' g =
     (let offset = nextPc' - currentPc;
          readCached = ReadVariable (cachedPcVarId ctx)
      in case randomInt 1 4 g of (kind, g1) \<Rightarrow>
        if kind = 1 then
          (MathOp operator_add readCached (NumberLiteral offset), g1)
        else if kind = 2 then
          (MathOp operator_subtract readCached (NumberLiteral (- offset)), g1)
        else if kind = 3 then
          (case randomInt 1000 99999 g1 of (scramble, g2) \<Rightarrow>
            (MathOp operator_subtract
               (MathOp operator_add readCached (NumberLiteral scramble))
               (NumberLiteral (scramble - offset)), g2))
        else if kind = 4 then
          (MathOp operator_divide
             (MathOp operator_add
                (MathOp operator_multiply readCached (NumberLiteral 2))
                (NumberLiteral (offset * 2)))
             (NumberLiteral 2), g1)
        else (NumberLiteral nextPc', g1))"

text \<open>
  \<open>resolveAndWritePc\<close> returns the block that writes the program counter, linked to a
  second block (the cached program counter when the thread yields, keep-going otherwise),
  and whether the thread yields. Every caller passes the current state's \<open>pc\<close> and the
  configuration.
\<close>

definition resolveAndWritePc ::
  "ScriptCFFContext \<Rightarrow> int \<Rightarrow> (int \<rightharpoonup> int) \<Rightarrow> int \<Rightarrow> cffConfig \<Rightarrow> gen
     \<Rightarrow> (chainHead \<times> bool) \<times> gen" where
  "resolveAndWritePc ctx p yieldRedirects currentPc config g =
     (let isRedirect = (p \<in> dom yieldRedirects);
          resolvedPc = (case yieldRedirects p of Some q \<Rightarrow> q | None \<Rightarrow> p);
          shouldYield = (isRedirect \<or> resolvedPc = EXIT_PC)
      in case (if obfuscatePcTransitions config
               then buildObfuscatedPcExpr ctx currentPc resolvedPc g
               else (NumberLiteral resolvedPc, g)) of
         (pcValueBlock, g1) \<Rightarrow>
           (((writePcToList ctx pcValueBlock,
              [if shouldYield
               then SetVariable (cachedPcVarId ctx) (NumberLiteral resolvedPc)
               else SetVariable (keepGoingVarId ctx) (NumberLiteral 1)]),
             shouldYield), g1))"

definition buildCounterKey :: "ScriptCFFContext \<Rightarrow> string \<Rightarrow> expr" where
  "buildCounterKey ctx loopStaticId =
     OperatorJoin (ArgumentReporter (hd (stepArgNames ctx)))
       (OperatorJoin (TextLiteral '' '') (TextLiteral loopStaticId))"

subsection \<open>The body of one state (buildStateBody)\<close>

text \<open>
  The source collects the blocks of the body in an array and links them at the end.
  \<open>buildStateBlocks\<close> is that array, \<open>buildStateBody\<close> the linked chain. Each branch of
  the source's \<open>if ... else if\<close> cascade is a definition of its own, named after the state
  field it tests.
\<close>

definition chainOf :: "chainHead \<Rightarrow> stmt list" where
  "chainOf h = fst h # snd h"

definition branchBlocks ::
  "ScriptCFFContext \<Rightarrow> cffConfig \<Rightarrow> (int \<rightharpoonup> int) \<Rightarrow> CFGState \<Rightarrow> branchInfo \<Rightarrow> gen
     \<Rightarrow> chainHead list \<times> gen" where
  "branchBlocks ctx config yieldRedirects st br g =
     (case resolveAndWritePc ctx (truePc br) yieldRedirects (pc st) config g of
        ((setTrue, yt), g1) \<Rightarrow>
          (case resolveAndWritePc ctx (falsePc br) yieldRedirects (pc st) config g1 of
             ((setFalse, yf), g2) \<Rightarrow>
               if truthy (conditionBlockId br)
               then ([single (ControlIfElse (InputRef (conditionBlockId br))
                        (chainOf setTrue) (chainOf setFalse))], g2)
               else ([setFalse], g2)))"

definition repeatInitBlocks ::
  "ScriptCFFContext \<Rightarrow> cffConfig \<Rightarrow> (int \<rightharpoonup> int) \<Rightarrow> CFGState \<Rightarrow> repeatInitInfo \<Rightarrow> gen
     \<Rightarrow> chainHead list \<times> gen" where
  "repeatInitBlocks ctx config yieldRedirects st ri g =
     (let keyBlock = buildCounterKey ctx (ri_loopStaticId ri);
          mathRound = MathopCeiling (InputRef (countExprBlockId ri))
      in case resolveAndWritePc ctx (nextPc st) yieldRedirects (pc st) config g of
           ((firstBlock, y), g1) \<Rightarrow>
             ([single (AddToList (counterKeyId (lists ctx)) keyBlock),
               single (AddToList (counterValId (lists ctx)) mathRound),
               firstBlock], g1))"

definition repeatCheckBlocks ::
  "ScriptCFFContext \<Rightarrow> cffConfig \<Rightarrow> (int \<rightharpoonup> int) \<Rightarrow> CFGState \<Rightarrow> repeatCheckInfo \<Rightarrow> gen
     \<Rightarrow> chainHead list \<times> gen" where
  "repeatCheckBlocks ctx config yieldRedirects st rc g =
     (let ls = lists ctx;
          key = buildCounterKey ctx (rc_loopStaticId rc);
          counterIdx = ItemNumOfList (counterKeyId ls) key;
          counterVal = ItemOfList (counterValId ls) counterIdx;
          isPositive = Comparison operator_gt counterVal (NumberLiteral 0);
          counterIdx2 = ItemNumOfList (counterKeyId ls) key;
          counterIdx2b = ItemNumOfList (counterKeyId ls) key;
          counterRead = ItemOfList (counterValId ls) counterIdx2b;
          decremented = MathOp operator_subtract counterRead (NumberLiteral 1);
          replaceDecr = ReplaceItemOfList (counterValId ls) counterIdx2 decremented;
          counterIdx3 = ItemNumOfList (counterKeyId ls) key
      in case resolveAndWritePc ctx (rc_bodyPc rc) yieldRedirects (pc st) config g of
           ((setPcBody, yb), g1) \<Rightarrow>
             (case uid g1 of (counterCleanupVarId, g2) \<Rightarrow>
                (case resolveAndWritePc ctx (rc_exitPc rc) yieldRedirects (pc st) config g2 of
                   ((setPcExit, ye), g3) \<Rightarrow>
                     ([single (ControlIfElse isPositive
                         (replaceDecr # chainOf setPcBody)
                         (SetVariable counterCleanupVarId counterIdx3
                          # DeleteOfList (counterKeyId ls) (ReadVariable counterCleanupVarId)
                          # DeleteOfList (counterValId ls) (ReadVariable counterCleanupVarId)
                          # chainOf setPcExit))], g3))))"

definition forEachInitBlocks ::
  "ScriptCFFContext \<Rightarrow> cffConfig \<Rightarrow> (int \<rightharpoonup> int) \<Rightarrow> CFGState \<Rightarrow> forEachInitInfo \<Rightarrow> gen
     \<Rightarrow> chainHead list \<times> gen" where
  "forEachInitBlocks ctx config yieldRedirects st fi g =
     (let ls = lists ctx;
          keyBound = buildCounterKey ctx (fi_loopBoundStaticId fi);
          ceilExpr = MathopCeiling (InputRef (valueExprBlockId fi));
          keyCounter = buildCounterKey ctx (fi_loopCounterStaticId fi)
      in case resolveAndWritePc ctx (nextPc st) yieldRedirects (pc st) config g of
           ((firstBlock, y), g1) \<Rightarrow>
             ([single (AddToList (counterKeyId ls) keyBound),
               single (AddToList (counterValId ls) ceilExpr),
               single (AddToList (counterKeyId ls) keyCounter),
               single (AddToList (counterValId ls) (NumberLiteral 0)),
               firstBlock], g1))"

definition forEachCheckBlocks ::
  "ScriptCFFContext \<Rightarrow> cffConfig \<Rightarrow> (int \<rightharpoonup> int) \<Rightarrow> CFGState \<Rightarrow> forEachCheckInfo \<Rightarrow> gen
     \<Rightarrow> chainHead list \<times> gen" where
  "forEachCheckBlocks ctx config yieldRedirects st fc g =
     (let ls = lists ctx;
          keyCounter = buildCounterKey ctx (fc_loopCounterStaticId fc);
          keyBound = buildCounterKey ctx (fc_loopBoundStaticId fc);
          idxCounter = ItemNumOfList (counterKeyId ls) keyCounter;
          idxBound = ItemNumOfList (counterKeyId ls) keyBound;
          isLess = Comparison operator_lt
                     (ItemOfList (counterValId ls) idxCounter)
                     (ItemOfList (counterValId ls) idxBound);
          newCounterExpr =
            MathOp operator_add (ItemOfList (counterValId ls) idxCounter) (NumberLiteral 1)
      in case uid g of (newCtrVarId, g1) \<Rightarrow>
        (case resolveAndWritePc ctx (fc_bodyPc fc) yieldRedirects (pc st) config g1 of
           ((setPcBody, yb), g2) \<Rightarrow>
             (case uid g2 of (ctrCleanVarId, g3) \<Rightarrow>
               (case uid g3 of (bndCleanVarId, g4) \<Rightarrow>
                 (case resolveAndWritePc ctx (fc_exitPc fc) yieldRedirects (pc st) config g4 of
                    ((setPcExit, ye), g5) \<Rightarrow>
                      ([single (ControlIfElse isLess
                          (SetVariable newCtrVarId newCounterExpr
                           # ReplaceItemOfList (counterValId ls) idxCounter
                               (ReadVariable newCtrVarId)
                           # SetVariable (case varId fc of Some v \<Rightarrow> v | None \<Rightarrow> [])
                               (ReadVariable newCtrVarId)
                           # chainOf setPcBody)
                          (SetVariable ctrCleanVarId idxCounter
                           # DeleteOfList (counterKeyId ls) (ReadVariable ctrCleanVarId)
                           # DeleteOfList (counterValId ls) (ReadVariable ctrCleanVarId)
                           # SetVariable bndCleanVarId idxBound
                           # DeleteOfList (counterKeyId ls) (ReadVariable bndCleanVarId)
                           # DeleteOfList (counterValId ls) (ReadVariable bndCleanVarId)
                           # chainOf setPcExit))], g5))))))"

definition terminalBlocks :: "ScriptCFFContext \<Rightarrow> CFGState \<Rightarrow> chainHead list" where
  "terminalBlocks ctx st =
     (let ls = lists ctx;
          baseRead = ReadVariable (baseIndexVarId ctx)
      in [single (DeleteOfList (pcIdId ls) baseRead),
          single (DeleteOfList (pcValId ls) baseRead)]
         @ (if hasTimerWait ls \<or> hasBroadcastWait ls
            then [single (DeleteOfList (waitFlagId ls) baseRead),
                  single (DeleteOfList (bcastPendingMsgId ls) baseRead)]
            else [])
         @ [single (SetVariable (keepGoingVarId ctx) (NumberLiteral 0))]
         @ map (\<lambda>bid. single (OrigBlock bid)) (bodyBlockIds st))"

text \<open>Wait start and broadcast-and-wait start differ in the payload stored and in the
  flag (1 for a timer, -1 for a broadcast).\<close>

definition waitStartBlocks ::
  "ScriptCFFContext \<Rightarrow> cffConfig \<Rightarrow> CFGState \<Rightarrow> string \<Rightarrow> int \<Rightarrow> int \<Rightarrow> gen
     \<Rightarrow> chainHead list \<times> gen" where
  "waitStartBlocks ctx config st payloadBlockId flag pollPc g =
     (let ls = lists ctx;
          baseRead = ReadVariable (baseIndexVarId ctx)
      in case (if obfuscatePcTransitions config
               then buildObfuscatedPcExpr ctx (pc st) pollPc g
               else (NumberLiteral pollPc, g)) of
           (pollPcValue, g1) \<Rightarrow>
             ([single (ReplaceItemOfList (bcastPendingMsgId ls) baseRead
                         (InputRef (RefId payloadBlockId))),
               single (ReplaceItemOfList (waitFlagId ls) baseRead (NumberLiteral flag)),
               single (AddToList (waitQueueId ls) (ArgumentReporter (hd (stepArgNames ctx)))),
               single (EventBroadcast (waitBroadcastId ls)),
               single (writePcToList ctx pollPcValue),
               single (SetVariable (cachedPcVarId ctx) (NumberLiteral pollPc))], g1))"

definition waitPollBlocks ::
  "ScriptCFFContext \<Rightarrow> cffConfig \<Rightarrow> (int \<rightharpoonup> int) \<Rightarrow> CFGState \<Rightarrow> waitPollInfo \<Rightarrow> gen
     \<Rightarrow> chainHead list \<times> gen" where
  "waitPollBlocks ctx config yieldRedirects st wp g =
     (let ls = lists ctx;
          baseRead = ReadVariable (baseIndexVarId ctx);
          flagDone =
            Comparison operator_equals (ItemOfList (waitFlagId ls) baseRead) (NumberLiteral 0);
          isRedirect = (wp_continuationPc wp \<in> dom yieldRedirects);
          resolvedCont =
            (case yieldRedirects (wp_continuationPc wp) of Some q \<Rightarrow> q
             | None \<Rightarrow> wp_continuationPc wp);
          shouldYield = (isRedirect \<or> resolvedCont = EXIT_PC)
      in case (if obfuscatePcTransitions config
               then buildObfuscatedPcExpr ctx (pc st) resolvedCont g
               else (NumberLiteral resolvedCont, g)) of
           (contPcValue, g1) \<Rightarrow>
             ([single (ControlIfElse flagDone
                 [writePcToList ctx contPcValue,
                  if shouldYield
                  then SetVariable (cachedPcVarId ctx) (NumberLiteral resolvedCont)
                  else SetVariable (keepGoingVarId ctx) (NumberLiteral 1)]
                 [SetVariable (cachedPcVarId ctx) (NumberLiteral (pc st))])], g1))"

definition normalBlocks ::
  "ScriptCFFContext \<Rightarrow> cffConfig \<Rightarrow> (int \<rightharpoonup> int) \<Rightarrow> CFGState \<Rightarrow> gen
     \<Rightarrow> chainHead list \<times> gen" where
  "normalBlocks ctx config yieldRedirects st g =
     (case resolveAndWritePc ctx (nextPc st) yieldRedirects (pc st) config g of
        ((setPc, yielded), g1) \<Rightarrow>
          (map (\<lambda>bid. single (OrigBlock bid)) (bodyBlockIds st)
           @ [setPc]
           @ (if isDead st \<and> \<not> yielded
              then [single (SetVariable (keepGoingVarId ctx) (NumberLiteral 0))]
              else []), g1))"

definition buildStateBlocks ::
  "ScriptCFFContext \<Rightarrow> cffConfig \<Rightarrow> (int \<rightharpoonup> int) \<Rightarrow> CFGState \<Rightarrow> gen
     \<Rightarrow> chainHead list \<times> gen" where
  "buildStateBlocks ctx config yieldRedirects st g =
     (if branch st \<noteq> None then
        branchBlocks ctx config yieldRedirects st (the (branch st)) g
      else if repeatInit st \<noteq> None then
        repeatInitBlocks ctx config yieldRedirects st (the (repeatInit st)) g
      else if repeatCheck st \<noteq> None then
        repeatCheckBlocks ctx config yieldRedirects st (the (repeatCheck st)) g
      else if forEachInit st \<noteq> None then
        forEachInitBlocks ctx config yieldRedirects st (the (forEachInit st)) g
      else if forEachCheck st \<noteq> None then
        forEachCheckBlocks ctx config yieldRedirects st (the (forEachCheck st)) g
      else if isTerminal st then
        (terminalBlocks ctx st, g)
      else if waitStart st \<noteq> None then
        waitStartBlocks ctx config st (durationExprBlockId (the (waitStart st))) 1
          (ws_pollPc (the (waitStart st))) g
      else if broadcastWaitStart st \<noteq> None then
        waitStartBlocks ctx config st (broadcastExprBlockId (the (broadcastWaitStart st)))
          (- 1) (bws_pollPc (the (broadcastWaitStart st))) g
      else if waitPoll st \<noteq> None then
        waitPollBlocks ctx config yieldRedirects st (the (waitPoll st)) g
      else normalBlocks ctx config yieldRedirects st g)"

definition buildStateBody ::
  "ScriptCFFContext \<Rightarrow> cffConfig \<Rightarrow> (int \<rightharpoonup> int) \<Rightarrow> CFGState \<Rightarrow> gen
     \<Rightarrow> stmt list \<times> gen" where
  "buildStateBody ctx config yieldRedirects st g =
     (case buildStateBlocks ctx config yieldRedirects st g of (blocks, g1) \<Rightarrow>
        if blocks = [] then
          (case resolveAndWritePc ctx (nextPc st) yieldRedirects (pc st) config g1 of
             ((firstBlock, y), g2) \<Rightarrow> (chainOf firstBlock, g2))
        else (chainBlocks blocks, g1))"

subsection \<open>The dispatch tree (buildBSTNode)\<close>

text \<open>
  \<open>LtNode pivot l r\<close> is the block \<open>if cachedPc < pivot then l else r\<close>; a leaf is the
  body emitted for one state, kept together with the state it was emitted for. Indices
  \<open>lo\<close> and \<open>hi\<close> outside the array make the source read \<open>undefined\<close> and fail on its
  first field access; the model returns \<open>None\<close> there.
\<close>

datatype bst = Leaf CFGState "stmt list" | LtNode int bst bst

function buildBSTNode ::
  "ScriptCFFContext \<Rightarrow> cffConfig \<Rightarrow> (int \<rightharpoonup> int) \<Rightarrow> CFGState list \<Rightarrow> nat \<Rightarrow> nat \<Rightarrow> gen
     \<Rightarrow> (bst \<times> gen) option" where
  "buildBSTNode ctx config yieldRedirects sortedStates lo hi g =
     (if hi < lo \<or> length sortedStates \<le> hi then None
      else if lo = hi then
        (case buildStateBody ctx config yieldRedirects (sortedStates ! lo) g of
           (body, g1) \<Rightarrow> Some (Leaf (sortedStates ! lo) body, g1))
      else if lo + 1 = hi then
        (case buildStateBody ctx config yieldRedirects (sortedStates ! lo) g of
           (leftBody, g1) \<Rightarrow>
         case buildStateBody ctx config yieldRedirects (sortedStates ! hi) g1 of
           (rightBody, g2) \<Rightarrow>
             Some (LtNode (pc (sortedStates ! hi))
                     (Leaf (sortedStates ! lo) leftBody) (Leaf (sortedStates ! hi) rightBody), g2))
      else
        (let mid = (lo + hi) div 2;
             pivot = pc (sortedStates ! (mid + 1))
         in case buildBSTNode ctx config yieldRedirects sortedStates lo mid g of
              None \<Rightarrow> None
            | Some (leftId, g1) \<Rightarrow>
              (case buildBSTNode ctx config yieldRedirects sortedStates (mid + 1) hi g1 of
                 None \<Rightarrow> None
               | Some (rightId, g2) \<Rightarrow> Some (LtNode pivot leftId rightId, g2))))"
  by pat_completeness auto
termination
  by (relation "measure (\<lambda>(ctx, config, yr, sortedStates, lo, hi, g). hi - lo)") auto

text \<open>The tree as emitted blocks.\<close>

fun emitBST :: "ScriptCFFContext \<Rightarrow> bst \<Rightarrow> stmt list" where
  "emitBST ctx (Leaf st body) = body"
| "emitBST ctx (LtNode pivot l r) =
     [ControlIfElse (Comparison operator_lt (readPcFromList ctx) (NumberLiteral pivot))
        (emitBST ctx l) (emitBST ctx r)]"

text \<open>\<open>sorted = [...states].sort((a, b) => a.pc - b.pc)\<close>, a stable sort by \<open>pc\<close>.\<close>

definition sortStates :: "CFGState list \<Rightarrow> CFGState list" where
  "sortStates states = sort_key pc states"

definition buildDispatchTree ::
  "ScriptCFFContext \<Rightarrow> cffConfig \<Rightarrow> (int \<rightharpoonup> int) \<Rightarrow> CFGState list \<Rightarrow> gen
     \<Rightarrow> (bst \<times> gen) option" where
  "buildDispatchTree ctx config yieldRedirects states g =
     (if states = [] then None
      else buildBSTNode ctx config yieldRedirects (sortStates states) 0
             (length (sortStates states) - 1) g)"







subsection \<open>The procedures and scripts that the pass adds\<close>

text \<open>
  A custom block definition (proccode, argument names, warp flag, body) and a script under
  a hat block (the hat's opcode, the broadcast it listens to when it is a receiver, and
  the chain below it).
\<close>

record procDef =
  proccode :: string
  argNames :: "string list"
  warp :: bool
  procBody :: "stmt list"

record script =
  hatOpcode :: string
  hatBroadcast :: "string option"
  scriptBody :: "stmt list"

text \<open>
  \<open>step_N(id, args...)\<close>, run without screen refresh: set keep-going, look the row of the
  thread up once, then dispatch on the cached program counter until a state leaves
  keep-going at 0.
\<close>

definition dispatchLoopBody :: "ScriptCFFContext \<Rightarrow> stmt list \<Rightarrow> stmt list" where
  "dispatchLoopBody ctx bstRoot =
     SetVariable (keepGoingVarId ctx) (NumberLiteral 0)
     # SetVariable (cachedPcVarId ctx)
         (ItemOfList (pcValId (lists ctx)) (ReadVariable (baseIndexVarId ctx)))
     # bstRoot"

definition dispatchLoop :: "ScriptCFFContext \<Rightarrow> stmt list \<Rightarrow> stmt" where
  "dispatchLoop ctx bstRoot =
     RepeatUntil
       (Comparison operator_equals (ReadVariable (keepGoingVarId ctx)) (NumberLiteral 0))
       (dispatchLoopBody ctx bstRoot)"

definition stepBody :: "ScriptCFFContext \<Rightarrow> stmt list \<Rightarrow> stmt list" where
  "stepBody ctx bstRoot =
     [SetVariable (keepGoingVarId ctx) (NumberLiteral 1),
      SetVariable (baseIndexVarId ctx)
        (ItemNumOfList (pcIdId (lists ctx)) (ArgumentReporter (hd (stepArgNames ctx)))),
      dispatchLoop ctx bstRoot]"

definition buildStepFunction ::
  "ScriptCFFContext \<Rightarrow> CFGState list \<Rightarrow> cffConfig \<Rightarrow> (int \<rightharpoonup> int) \<Rightarrow> gen
     \<Rightarrow> (procDef \<times> gen) option" where
  "buildStepFunction ctx states config yieldRedirects g =
     (case buildDispatchTree ctx config yieldRedirects states g of
        None \<Rightarrow> None
      | Some (t, g1) \<Rightarrow>
          Some (\<lparr> proccode = stepProccode ctx, argNames = stepArgNames ctx, warp = True,
                  procBody = stepBody ctx (emitBST ctx t) \<rparr>, g1))"

text \<open>
  \<open>run_N(threadId, args...)\<close>, with screen refresh: add one row for the thread, call
  \<open>step_N\<close> until the thread's program counter is 0, remove the row.
\<close>

definition usesWait :: "TargetCFFLists \<Rightarrow> bool" where
  "usesWait ls = (hasTimerWait ls \<or> hasBroadcastWait ls)"

definition runRegister :: "ScriptCFFContext \<Rightarrow> int \<Rightarrow> stmt list" where
  "runRegister ctx entryPc =
     [AddToList (pcIdId (lists ctx)) (ArgumentReporter (hd (runArgNames ctx))),
      AddToList (pcValId (lists ctx)) (NumberLiteral entryPc)]
     @ (if hasTimerWait (lists ctx) \<or> hasBroadcastWait (lists ctx)
        then [AddToList (waitFlagId (lists ctx)) (NumberLiteral 0),
              AddToList (bcastPendingMsgId (lists ctx)) (TextLiteral [])]
        else [])"

definition runLoop :: "ScriptCFFContext \<Rightarrow> stmt" where
  "runLoop ctx =
     RepeatUntil
       (Comparison operator_equals
          (ItemOfList (pcValId (lists ctx))
             (ItemNumOfList (pcIdId (lists ctx)) (ArgumentReporter (hd (runArgNames ctx)))))
          (NumberLiteral 0))
       [ProcedureCall (stepProccode ctx) (map ArgumentReporter (runArgNames ctx))]"

definition runCleanup :: "ScriptCFFContext \<Rightarrow> stmt list" where
  "runCleanup ctx =
     [SetVariable (baseIndexVarId ctx)
        (ItemNumOfList (pcIdId (lists ctx)) (ArgumentReporter (hd (runArgNames ctx)))),
      DeleteOfList (pcIdId (lists ctx)) (ReadVariable (baseIndexVarId ctx)),
      DeleteOfList (pcValId (lists ctx)) (ReadVariable (baseIndexVarId ctx))]
     @ (if hasTimerWait (lists ctx) \<or> hasBroadcastWait (lists ctx)
        then [DeleteOfList (waitFlagId (lists ctx)) (ReadVariable (baseIndexVarId ctx)),
              DeleteOfList (bcastPendingMsgId (lists ctx)) (ReadVariable (baseIndexVarId ctx))]
        else [])"

definition buildRunFunction :: "ScriptCFFContext \<Rightarrow> int \<Rightarrow> procDef" where
  "buildRunFunction ctx entryPc =
     \<lparr> proccode = runProccode ctx, argNames = runArgNames ctx, warp = False,
       procBody = runRegister ctx entryPc @ [runLoop ctx] @ runCleanup ctx \<rparr>"

text \<open>
  The wait handler of a target: the custom block \<open>handleWait(threadId)\<close> and the receiver
  of the wait signal. Every index in \<open>handleWait\<close> is computed inline from its argument.
\<close>

definition handleWaitBody :: "TargetCFFLists \<Rightarrow> string \<Rightarrow> stmt list" where
  "handleWaitBody ls hwArgName =
     (let inlineBaseIndex = ItemNumOfList (pcIdId ls) (ArgumentReporter hwArgName);
          readFlag = ItemOfList (waitFlagId ls) inlineBaseIndex;
          readData = ItemOfList (bcastPendingMsgId ls) inlineBaseIndex;
          clearFlag = ReplaceItemOfList (waitFlagId ls) inlineBaseIndex (NumberLiteral 0)
      in if hasTimerWait ls \<and> hasBroadcastWait ls then
           [ControlIfElse (Comparison operator_gt readFlag (NumberLiteral 0))
              [ControlWait readData, clearFlag]
              [EventBroadcastAndWait readData, clearFlag]]
         else if hasTimerWait ls then [ControlWait readData, clearFlag]
         else [EventBroadcastAndWait readData, clearFlag])"

definition waitReceiverBody :: "TargetCFFLists \<Rightarrow> string \<Rightarrow> string \<Rightarrow> stmt list" where
  "waitReceiverBody ls savedTidId hwProccode =
     [ControlIf (Comparison operator_gt (LengthOfList (waitQueueId ls)) (NumberLiteral 0))
        [SetVariable savedTidId (ItemOfList (waitQueueId ls) (NumberLiteral 1)),
         DeleteOfList (waitQueueId ls) (NumberLiteral 1),
         ControlIf (Comparison operator_gt (LengthOfList (waitQueueId ls)) (NumberLiteral 0))
           [EventBroadcast (waitBroadcastId ls)],
         ProcedureCall hwProccode [ReadVariable savedTidId]]]"

definition buildWaitHandler :: "TargetCFFLists \<Rightarrow> gen \<Rightarrow> (procDef \<times> script) \<times> gen" where
  "buildWaitHandler ls g =
     (case uid g of (hwArgName, g1) \<Rightarrow>
      case uid g1 of (hwName, g2) \<Rightarrow>
      case uid g2 of (savedTidId, g3) \<Rightarrow>
        ((\<lparr> proccode = hwName @ '' %s'', argNames = [hwArgName], warp = False,
             procBody = handleWaitBody ls hwArgName \<rparr>,
          \<lparr> hatOpcode = ''event_whenbroadcastreceived'',
             hatBroadcast = Some (waitBroadcastId ls),
             scriptBody = waitReceiverBody ls savedTidId (hwName @ '' %s'') \<rparr>), g3))"

text \<open>The green-flag cleanup hat: clear every list of the pass, then send the start
  signal.\<close>

definition buildGreenFlagCleanup :: "TargetCFFLists \<Rightarrow> script" where
  "buildGreenFlagCleanup ls =
     (let clears =
            [DeleteAllOfList (pcIdId ls), DeleteAllOfList (pcValId ls),
             DeleteAllOfList (counterKeyId ls), DeleteAllOfList (counterValId ls)]
            @ (if hasTimerWait ls \<or> hasBroadcastWait ls
               then [DeleteAllOfList (waitFlagId ls), DeleteAllOfList (bcastPendingMsgId ls),
                     DeleteAllOfList (waitQueueId ls)]
               else [])
      in \<lparr> hatOpcode = ''event_whenflagclicked'', hatBroadcast = None,
            scriptBody = clears @ [EventBroadcast (startBroadcastId ls)] \<rparr>)"

subsection \<open>Running emitted code\<close>

text \<open>
  What the Scratch runtime does with the blocks above. Values are numbers, texts and
  booleans; lists are indexed from 1; reading outside a list gives the empty text, and
  replacing or deleting outside a list does nothing; \<open>item # of\<close> is the first position
  whose item compares equal, or 0. Two values that both read as numbers are compared as
  numbers, any other pair as texts. The runtime's treatment of texts (reading a text as
  a number, writing a number as text, comparing texts), the value of an operand taken
  over from the original script and the effect of a statement taken over from it are
  not defined by the pass: they are parameters (\<open>scratchVM\<close>). Lists are unbounded, and an
  index is a number (the words \<open>last\<close> and \<open>all\<close> are never used by emitted code).

  One thread is run on its own: a loop that would give other threads a turn simply goes
  on. Loops and calls take fuel; \<open>None\<close> is a run that did not finish within it.
\<close>

datatype sval = SNum real | SText string | SBool bool

datatype event =
    Broadcast string
  | BroadcastAndWait sval
  | Waited sval
  | Called string "sval list"

record runtime =
  vars :: "string \<Rightarrow> sval"
  rlists :: "string \<Rightarrow> sval list"
  events :: "event list"

text \<open>How a statement ends: the thread goes on, the enclosing custom block returns
  (\<open>stop this script\<close> inside a definition), or the thread is gone (\<open>stop all\<close>,
  \<open>delete this clone\<close>).\<close>

datatype flow = Continue | EndProcedure | EndThread

record scratchVM =
  textNum :: "string \<Rightarrow> real option"
  numText :: "real \<Rightarrow> string"
  textCmp :: "cmpOpcode \<Rightarrow> string \<Rightarrow> string \<Rightarrow> bool"
  textTruth :: "string \<Rightarrow> bool"
  inputValue :: "inputval \<Rightarrow> (string \<Rightarrow> sval) \<Rightarrow> runtime \<Rightarrow> sval"
  randomPick :: "real \<Rightarrow> real \<Rightarrow> runtime \<Rightarrow> real"
  origBlock :: "string \<Rightarrow> (string \<Rightarrow> sval) \<Rightarrow> runtime \<Rightarrow> flow \<times> runtime"

fun numOf :: "scratchVM \<Rightarrow> sval \<Rightarrow> real option" where
  "numOf vm (SNum r) = Some r"
| "numOf vm (SText s) = textNum vm s"
| "numOf vm (SBool b) = Some (if b then 1 else 0)"

definition toNumber :: "scratchVM \<Rightarrow> sval \<Rightarrow> real" where
  "toNumber vm v = (case numOf vm v of Some r \<Rightarrow> r | None \<Rightarrow> 0)"

fun toText :: "scratchVM \<Rightarrow> sval \<Rightarrow> string" where
  "toText vm (SNum r) = numText vm r"
| "toText vm (SText s) = s"
| "toText vm (SBool b) = (if b then ''true'' else ''false'')"

fun toBool :: "scratchVM \<Rightarrow> sval \<Rightarrow> bool" where
  "toBool vm (SBool b) = b"
| "toBool vm (SNum r) = (r \<noteq> 0)"
| "toBool vm (SText s) = textTruth vm s"

fun numCmp :: "cmpOpcode \<Rightarrow> real \<Rightarrow> real \<Rightarrow> bool" where
  "numCmp operator_lt x y = (x < y)"
| "numCmp operator_gt x y = (x > y)"
| "numCmp operator_equals x y = (x = y)"

definition compareOp :: "scratchVM \<Rightarrow> cmpOpcode \<Rightarrow> sval \<Rightarrow> sval \<Rightarrow> bool" where
  "compareOp vm opc a b =
     (case (numOf vm a, numOf vm b) of
        (Some x, Some y) \<Rightarrow> numCmp opc x y
      | _ \<Rightarrow> textCmp vm opc (toText vm a) (toText vm b))"

fun arith :: "mathOpcode \<Rightarrow> real \<Rightarrow> real \<Rightarrow> real" where
  "arith operator_add x y = x + y"
| "arith operator_subtract x y = x - y"
| "arith operator_multiply x y = x * y"
| "arith operator_divide x y = x / y"

text \<open>A list index: the floor of the number, valid from 1 to the length.\<close>

definition listIndex :: "scratchVM \<Rightarrow> sval \<Rightarrow> nat \<Rightarrow> nat option" where
  "listIndex vm v n =
     (let i = \<lfloor>toNumber vm v\<rfloor> in if 1 \<le> i \<and> i \<le> int n then Some (nat i) else None)"

fun itemNum :: "scratchVM \<Rightarrow> sval \<Rightarrow> sval list \<Rightarrow> nat" where
  "itemNum vm x [] = 0"
| "itemNum vm x (y # ys) =
     (if compareOp vm operator_equals y x then 1
      else (case itemNum vm x ys of 0 \<Rightarrow> 0 | Suc k \<Rightarrow> Suc (Suc k)))"

definition deleteAt :: "nat \<Rightarrow> 'a list \<Rightarrow> 'a list" where
  "deleteAt k xs = take (k - 1) xs @ drop k xs"

fun eval :: "scratchVM \<Rightarrow> (string \<Rightarrow> sval) \<Rightarrow> runtime \<Rightarrow> expr \<Rightarrow> sval" where
  "eval vm args rt (NumberLiteral n) = SNum (real_of_int n)"
| "eval vm args rt (TextLiteral s) = SText s"
| "eval vm args rt (ReadVariable x) = vars rt x"
| "eval vm args rt (ArgumentReporter a) = args a"
| "eval vm args rt (ItemOfList l i) =
     (case listIndex vm (eval vm args rt i) (length (rlists rt l)) of
        Some k \<Rightarrow> rlists rt l ! (k - 1)
      | None \<Rightarrow> SText [])"
| "eval vm args rt (ItemNumOfList l x) =
     SNum (real (itemNum vm (eval vm args rt x) (rlists rt l)))"
| "eval vm args rt (LengthOfList l) = SNum (real (length (rlists rt l)))"
| "eval vm args rt (MathOp opc a b) =
     SNum (arith opc (toNumber vm (eval vm args rt a)) (toNumber vm (eval vm args rt b)))"
| "eval vm args rt (Comparison opc a b) =
     SBool (compareOp vm opc (eval vm args rt a) (eval vm args rt b))"
| "eval vm args rt (OperatorJoin a b) =
     SText (toText vm (eval vm args rt a) @ toText vm (eval vm args rt b))"
| "eval vm args rt (MathopCeiling a) =
     SNum (real_of_int \<lceil>toNumber vm (eval vm args rt a)\<rceil>)"
| "eval vm args rt (OperatorRandom a b) =
     SNum (randomPick vm (toNumber vm (eval vm args rt a)) (toNumber vm (eval vm args rt b)) rt)"
| "eval vm args rt (InputRef v) = inputValue vm v args rt"

definition setVar :: "string \<Rightarrow> sval \<Rightarrow> runtime \<Rightarrow> runtime" where
  "setVar x v rt = rt\<lparr>vars := (vars rt)(x := v)\<rparr>"

definition setList :: "string \<Rightarrow> sval list \<Rightarrow> runtime \<Rightarrow> runtime" where
  "setList l xs rt = rt\<lparr>rlists := (rlists rt)(l := xs)\<rparr>"

definition emit :: "event \<Rightarrow> runtime \<Rightarrow> runtime" where
  "emit e rt = rt\<lparr>events := events rt @ [e]\<rparr>"

definition bindArgs :: "string list \<Rightarrow> sval list \<Rightarrow> string \<Rightarrow> sval" where
  "bindArgs names vals a =
     (case map_of (zip names vals) a of Some v \<Rightarrow> v | None \<Rightarrow> SNum 0)"

fun exec ::
  "scratchVM \<Rightarrow> (string \<Rightarrow> procDef option) \<Rightarrow> nat \<Rightarrow> (string \<Rightarrow> sval) \<Rightarrow> stmt list \<Rightarrow> runtime
     \<Rightarrow> (flow \<times> runtime) option"
and execStmt ::
  "scratchVM \<Rightarrow> (string \<Rightarrow> procDef option) \<Rightarrow> nat \<Rightarrow> (string \<Rightarrow> sval) \<Rightarrow> stmt \<Rightarrow> runtime
     \<Rightarrow> (flow \<times> runtime) option" where
  "exec vm procs n args [] rt = Some (Continue, rt)"
| "exec vm procs n args (s # ss) rt =
     (case execStmt vm procs n args s rt of
        None \<Rightarrow> None
      | Some (f, rt1) \<Rightarrow> if f = Continue then exec vm procs n args ss rt1 else Some (f, rt1))"
| "execStmt vm procs n args (SetVariable x e) rt =
     Some (Continue, setVar x (eval vm args rt e) rt)"
| "execStmt vm procs n args (AddToList l e) rt =
     Some (Continue, setList l (rlists rt l @ [eval vm args rt e]) rt)"
| "execStmt vm procs n args (DeleteOfList l i) rt =
     (case listIndex vm (eval vm args rt i) (length (rlists rt l)) of
        Some k \<Rightarrow> Some (Continue, setList l (deleteAt k (rlists rt l)) rt)
      | None \<Rightarrow> Some (Continue, rt))"
| "execStmt vm procs n args (DeleteAllOfList l) rt = Some (Continue, setList l [] rt)"
| "execStmt vm procs n args (ReplaceItemOfList l i e) rt =
     (case listIndex vm (eval vm args rt i) (length (rlists rt l)) of
        Some k \<Rightarrow> Some (Continue, setList l ((rlists rt l)[k - 1 := eval vm args rt e]) rt)
      | None \<Rightarrow> Some (Continue, rt))"
| "execStmt vm procs n args (ControlIf c a) rt =
     (if toBool vm (eval vm args rt c) then exec vm procs n args a rt else Some (Continue, rt))"
| "execStmt vm procs n args (ControlIfElse c a b) rt =
     (if toBool vm (eval vm args rt c) then exec vm procs n args a rt
      else exec vm procs n args b rt)"
| "execStmt vm procs n args (RepeatUntil c body) rt =
     (if toBool vm (eval vm args rt c) then Some (Continue, rt)
      else (case n of
              0 \<Rightarrow> None
            | Suc m \<Rightarrow>
                (case exec vm procs m args body rt of
                   None \<Rightarrow> None
                 | Some (f, rt1) \<Rightarrow>
                     if f = Continue then execStmt vm procs m args (RepeatUntil c body) rt1
                     else Some (f, rt1))))"
| "execStmt vm procs n args (EventBroadcast b) rt = Some (Continue, emit (Broadcast b) rt)"
| "execStmt vm procs n args (EventBroadcastAndWait e) rt =
     Some (Continue, emit (BroadcastAndWait (eval vm args rt e)) rt)"
| "execStmt vm procs n args (ControlWait e) rt =
     Some (Continue, emit (Waited (eval vm args rt e)) rt)"
| "execStmt vm procs n args (ProcedureCall p es) rt =
     (let vals = map (eval vm args rt) es in
      case procs p of
        None \<Rightarrow> Some (Continue, emit (Called p vals) rt)
      | Some d \<Rightarrow>
          (case n of
             0 \<Rightarrow> None
           | Suc m \<Rightarrow>
               (case exec vm procs m (bindArgs (argNames d) vals) (procBody d) rt of
                  None \<Rightarrow> None
                | Some (f, rt1) \<Rightarrow> Some (if f = EndThread then EndThread else Continue, rt1))))"
| "execStmt vm procs n args (OrigBlock bid) rt = Some (origBlock vm bid args rt)"

subsection \<open>Notions used to state the properties\<close>

text \<open>All subexpressions of an expression, the expression itself first.\<close>

fun subexprs :: "expr \<Rightarrow> expr list" where
  "subexprs (MathOp opc a b) = MathOp opc a b # subexprs a @ subexprs b"
| "subexprs (Comparison opc a b) = Comparison opc a b # subexprs a @ subexprs b"
| "subexprs (OperatorJoin a b) = OperatorJoin a b # subexprs a @ subexprs b"
| "subexprs (OperatorRandom a b) = OperatorRandom a b # subexprs a @ subexprs b"
| "subexprs (ItemOfList l i) = ItemOfList l i # subexprs i"
| "subexprs (ItemNumOfList l x) = ItemNumOfList l x # subexprs x"
| "subexprs (MathopCeiling a) = MathopCeiling a # subexprs a"
| "subexprs e = [e]"

text \<open>A value that a double holds exactly: an integer of magnitude below \<open>2^53\<close>.\<close>

definition exactInt :: "sval \<Rightarrow> bool" where
  "exactInt v = (\<exists>k::int. v = SNum (real_of_int k) \<and> \<bar>k\<bar> < 2 ^ 53)"

subsection \<open>The block map of a target (types.ts, blocks.ts)\<close>

text \<open>
  \<open>target.blocks\<close> maps identifiers to blocks or primitives. A JavaScript object keeps its
  keys in insertion order, assigning to an existing key keeps its place: an association
  list with \<open>AList.update\<close> and \<open>AList.delete\<close>. Of a procedure prototype's mutation the
  model keeps the argument names (what \<open>JSON.parse\<close> returns) and the proccode.
\<close>

record SB3Block =
  opcode :: string
  nextId :: "string option"
  parentId :: "string option"
  inputs :: "(string \<times> inputval) list"
  blockFields :: "(string \<times> string \<times> string option) list"
  topLevel :: bool
  mutation :: "(string list \<times> string) option"

text \<open>A literal that the decomposition creates: \<open>numberLiteral(parseFloat(t) || 0)\<close> is
  kept by the text \<open>t\<close> it was read from.\<close>

datatype literal = NumberOfText string | NumberZero | TextOf string

datatype blockEntry = FullBlock SB3Block | LiteralPrim literal

type_synonym blockMap = "(string \<times> blockEntry) list"

definition getFullBlock :: "blockMap \<Rightarrow> string \<Rightarrow> SB3Block option" where
  "getFullBlock bm i = (case map_of bm i of Some (FullBlock b) \<Rightarrow> Some b | _ \<Rightarrow> None)"

definition setParent :: "string \<Rightarrow> string option \<Rightarrow> blockMap \<Rightarrow> blockMap" where
  "setParent i p bm =
     (case getFullBlock bm i of
        Some b \<Rightarrow> AList.update i (FullBlock (b\<lparr>parentId := p\<rparr>)) bm
      | None \<Rightarrow> bm)"

definition setNext :: "string \<Rightarrow> string option \<Rightarrow> blockMap \<Rightarrow> blockMap" where
  "setNext i n bm =
     (case getFullBlock bm i of
        Some b \<Rightarrow> AList.update i (FullBlock (b\<lparr>nextId := n\<rparr>)) bm
      | None \<Rightarrow> bm)"

definition deleteBlock :: "string \<Rightarrow> blockMap \<Rightarrow> blockMap" where
  "deleteBlock i bm = AList.delete i bm"

text \<open>\<open>walkChain\<close>: follow \<open>next\<close> until it is empty, was seen before, or is no block.\<close>

function walkFrom :: "blockMap \<Rightarrow> string option \<Rightarrow> string set \<Rightarrow> string list" where
  "walkFrom bm None seen = []"
| "walkFrom bm (Some c) seen =
     (if c = [] \<or> c \<in> seen then []
      else c # (case getFullBlock bm c of
                  None \<Rightarrow> []
                | Some b \<Rightarrow> walkFrom bm (nextId b) (insert c seen)))"
  by pat_completeness auto
termination
proof (relation "measure (\<lambda>(bm, cur, seen). card (fst ` set bm - seen))")
  show "wf (measure (\<lambda>(bm, cur, seen). card (fst ` set bm - seen)))" by simp
next
  fix bm :: blockMap and c :: string and seen :: "string set" and b :: SB3Block
  assume a: "\<not> (c = [] \<or> c \<in> seen)" and g: "getFullBlock bm c = Some b"
  from g have "map_of bm c \<noteq> None" by (auto simp: getFullBlock_def split: option.splits)
  then have "c \<in> fst ` set bm" by (simp add: map_of_eq_None_iff)
  with a have "fst ` set bm - insert c seen \<subset> fst ` set bm - seen" by auto
  then have "card (fst ` set bm - insert c seen) < card (fst ` set bm - seen)"
    by (intro psubset_card_mono) auto
  then show "((bm, nextId b, insert c seen), (bm, Some c, seen))
               \<in> measure (\<lambda>(bm, cur, seen). card (fst ` set bm - seen))"
    by simp
qed

definition walkChain :: "blockMap \<Rightarrow> string \<Rightarrow> string list" where
  "walkChain bm startId = walkFrom bm (Some startId) {}"

text \<open>
  The value of an input slot (\<open>input ? input[1] : null\<close>), and the chain of a substack
  slot. An inline primitive in a substack slot makes \<open>walkChain\<close> return that primitive
  alone, which \<open>decomposeChain\<close> skips as it is no block: the chain is empty.
\<close>

definition inputOf :: "SB3Block \<Rightarrow> string \<Rightarrow> inputval" where
  "inputOf b k = (case map_of (inputs b) k of Some v \<Rightarrow> v | None \<Rightarrow> NullVal)"

definition chainOfInput :: "blockMap \<Rightarrow> inputval \<Rightarrow> string list" where
  "chainOfInput bm v = (case v of RefId s \<Rightarrow> walkChain bm s | _ \<Rightarrow> [])"

text \<open>\<open>if (id) { b = getFullBlock(id); if (b) b.parent = null }\<close>.\<close>

definition clearParent :: "inputval \<Rightarrow> blockMap \<Rightarrow> blockMap" where
  "clearParent v bm = (case v of RefId s \<Rightarrow> setParent s None bm | _ \<Rightarrow> bm)"

subsection \<open>Decomposition into states (decomposeToCFG)\<close>

definition C_BLOCK_OPCODES :: "string set" where
  "C_BLOCK_OPCODES = {''control_if'', ''control_if_else'', ''control_repeat'',
     ''control_repeat_until'', ''control_while'', ''control_for_each'',
     ''control_all_at_once'', ''control_forever''}"

definition TERMINATOR_OPCODES :: "string set" where
  "TERMINATOR_OPCODES = {''control_forever'', ''control_stop'', ''control_delete_this_clone''}"

definition HAT_OPCODES :: "string set" where
  "HAT_OPCODES = {''event_whenflagclicked'', ''event_whenkeypressed'',
     ''event_whenthisspriteclicked'', ''event_whenstageclicked'',
     ''event_whenbackdropswitchesto'', ''event_whengreaterthan'',
     ''event_whenbroadcastreceived'', ''control_start_as_clone''}"

definition isControlOpcode :: "string \<Rightarrow> bool" where
  "isControlOpcode opc =
     (opc \<in> C_BLOCK_OPCODES \<or> opc \<in> TERMINATOR_OPCODES \<or> opc = ''control_wait''
      \<or> opc = ''control_wait_until'' \<or> opc = ''event_broadcastandwait'')"

text \<open>The state of one call of \<open>decomposeToCFG\<close>: its three local collections, the block
  map it mutates, and the random sources.\<close>

record dstate =
  dStates :: "CFGState list"
  usedPcs :: "int set"
  dRedirects :: "int \<rightharpoonup> int"
  dBlocks :: blockMap
  dgen :: gen

text \<open>
  \<open>randomHugeInt\<close> and \<open>allocPc\<close> draw again as long as the draw is 0 or already used.
  Nothing bounds the number of draws: a run that never stops is \<open>None\<close>.
\<close>

partial_function (option) randomHugeInt :: "gen \<Rightarrow> (int \<times> gen) option" where
  [code]: "randomHugeInt g =
     (case mathRandom g of (r, g1) \<Rightarrow>
        if \<lfloor>r * real_of_int (PC_MAX - PC_MIN + 1)\<rfloor> + PC_MIN = 0 then randomHugeInt g1
        else Some (\<lfloor>r * real_of_int (PC_MAX - PC_MIN + 1)\<rfloor> + PC_MIN, g1))"

partial_function (option) allocLoop :: "int set \<Rightarrow> gen \<Rightarrow> (int \<times> gen) option" where
  [code]: "allocLoop used g =
     (case randomHugeInt g of
        None \<Rightarrow> None
      | Some (p, g1) \<Rightarrow> if p \<in> used \<or> p = EXIT_PC then allocLoop used g1 else Some (p, g1))"

definition allocPc :: "dstate \<Rightarrow> (int \<times> dstate) option" where
  "allocPc st =
     (case allocLoop (usedPcs st) (dgen st) of
        None \<Rightarrow> None
      | Some (p, g1) \<Rightarrow> Some (p, st\<lparr>usedPcs := insert p (usedPcs st), dgen := g1\<rparr>))"

definition pushState :: "CFGState \<Rightarrow> dstate \<Rightarrow> dstate" where
  "pushState s st = st\<lparr>dStates := dStates st @ [s]\<rparr>"

definition setRedirect :: "int \<Rightarrow> int \<Rightarrow> dstate \<Rightarrow> dstate" where
  "setRedirect p q st = st\<lparr>dRedirects := (dRedirects st)(p \<mapsto> q)\<rparr>"

definition onBlocks :: "(blockMap \<Rightarrow> blockMap) \<Rightarrow> dstate \<Rightarrow> dstate" where
  "onBlocks f st = st\<lparr>dBlocks := f (dBlocks st)\<rparr>"

definition drawUid :: "dstate \<Rightarrow> string \<times> dstate" where
  "drawUid st = (case uid (dgen st) of (u, g1) \<Rightarrow> (u, st\<lparr>dgen := g1\<rparr>))"

text \<open>\<open>bb.numberLiteral\<close> and \<open>bb.textLiteral\<close>: a new primitive under a fresh identifier.\<close>

definition newLiteral :: "literal \<Rightarrow> dstate \<Rightarrow> string \<times> dstate" where
  "newLiteral lit st =
     (case drawUid st of (i, st1) \<Rightarrow>
        (i, onBlocks (AList.update i (LiteralPrim lit)) st1))"

datatype segment = Linear "string list" | Control string

fun segmentsFrom :: "blockMap \<Rightarrow> string list \<Rightarrow> string list \<Rightarrow> segment list" where
  "segmentsFrom bm [] currentLinear =
     (if currentLinear \<noteq> [] then [Linear currentLinear] else [])"
| "segmentsFrom bm (blockId # rest) currentLinear =
     (case getFullBlock bm blockId of
        None \<Rightarrow> segmentsFrom bm rest currentLinear
      | Some block \<Rightarrow>
          if isControlOpcode (opcode block)
          then (if currentLinear \<noteq> [] then [Linear currentLinear] else [])
               @ Control blockId # segmentsFrom bm rest []
          else segmentsFrom bm rest (currentLinear @ [blockId]))"

text \<open>A linear segment is cut out of its surroundings and linked again as a chain of its
  own.\<close>

fun linkChain :: "string list \<Rightarrow> blockMap \<Rightarrow> blockMap" where
  "linkChain (a # b # rest) bm = linkChain (b # rest) (setParent b (Some a) (setNext a (Some b) bm))"
| "linkChain ids bm = bm"

definition isolateChain :: "string list \<Rightarrow> blockMap \<Rightarrow> blockMap" where
  "isolateChain ids bm =
     linkChain ids (fold (\<lambda>bid m. setParent bid None (setNext bid None m)) ids bm)"

text \<open>
  \<open>decomposeChain\<close> and \<open>decomposeControlBlock\<close> call each other along the nesting of the
  script. A block map whose substack links form a cycle makes the source recurse
  without end, so the model ties the recursion by fuel: \<open>decomposeChain (Suc n)\<close> may
  descend \<open>n\<close> further levels of nesting, and a run that needs more is \<open>None\<close>. The two
  bodies are written once, over the function they call for a nested chain
  (\<open>decomposeChain'\<close>) or for a control block (\<open>decomposeControlBlock'\<close>).

  \<open>decomposeSegmentsWith\<close> is the loop over the segments from the last to the first; it
  is given the segments in that order and returns the entry of the first.
\<close>

type_synonym chainDecomposer = "string list \<Rightarrow> int \<Rightarrow> dstate \<Rightarrow> (int \<times> dstate) option"

type_synonym controlDecomposer =
  "SB3Block \<Rightarrow> string \<Rightarrow> int \<Rightarrow> dstate \<Rightarrow> (int \<times> dstate) option"

text \<open>One definition for each \<open>case\<close> of the \<open>switch\<close> in \<open>decomposeControlBlock\<close>; the
  switch itself follows.\<close>

definition decomposeIf :: "chainDecomposer \<Rightarrow> controlDecomposer" where
  "decomposeIf decomposeChain' block blockId continuationPc st =
        do {
          (branchPc, st1) \<leftarrow> allocPc st;
          (bodyEntryPc, st2) \<leftarrow>
            (if truthy (inputOf block ''SUBSTACK'')
             then decomposeChain' (chainOfInput (dBlocks st1) (inputOf block ''SUBSTACK''))
                    continuationPc st1
             else Some (continuationPc, st1));
          Some (branchPc,
            onBlocks (deleteBlock blockId)
              (pushState
                 ((plainState branchPc [] continuationPc False)
                    \<lparr>branch := Some (BranchInfo (orEmpty (inputOf block ''CONDITION''))
                                       bodyEntryPc continuationPc)\<rparr>)
                 (onBlocks (clearParent (inputOf block ''CONDITION'')) st2)))
        }"

definition decomposeIfElse :: "chainDecomposer \<Rightarrow> controlDecomposer" where
  "decomposeIfElse decomposeChain' block blockId continuationPc st =
        do {
          (branchPc, st1) \<leftarrow> allocPc st;
          (trueEntryPc, st2) \<leftarrow>
            (if truthy (inputOf block ''SUBSTACK'')
             then decomposeChain' (chainOfInput (dBlocks st1) (inputOf block ''SUBSTACK''))
                    continuationPc st1
             else Some (continuationPc, st1));
          (falseEntryPc, st3) \<leftarrow>
            (if truthy (inputOf block ''SUBSTACK2'')
             then decomposeChain' (chainOfInput (dBlocks st2) (inputOf block ''SUBSTACK2''))
                    continuationPc st2
             else Some (continuationPc, st2));
          Some (branchPc,
            onBlocks (deleteBlock blockId)
              (pushState
                 ((plainState branchPc [] continuationPc False)
                    \<lparr>branch := Some (BranchInfo (orEmpty (inputOf block ''CONDITION''))
                                       trueEntryPc falseEntryPc)\<rparr>)
                 (onBlocks (clearParent (inputOf block ''CONDITION'')) st3)))
        }"

definition decomposeForever :: "chainDecomposer \<Rightarrow> controlDecomposer" where
  "decomposeForever decomposeChain' block blockId continuationPc st =
        (if truthy (inputOf block ''SUBSTACK'') then
           do {
             (yieldRedirectPc, st1) \<leftarrow> allocPc st;
             (bodyFirstPc, st2) \<leftarrow>
               decomposeChain' (chainOfInput (dBlocks st) (inputOf block ''SUBSTACK''))
                 yieldRedirectPc st1;
             Some (bodyFirstPc,
               onBlocks (deleteBlock blockId) (setRedirect yieldRedirectPc bodyFirstPc st2))
           }
         else
           do {
             (loopPc, st1) \<leftarrow> allocPc st;
             Some (loopPc,
               onBlocks (deleteBlock blockId)
                 (setRedirect loopPc loopPc
                    (pushState (plainState loopPc [] loopPc False) st1)))
           })"

definition decomposeRepeat :: "chainDecomposer \<Rightarrow> controlDecomposer" where
  "decomposeRepeat decomposeChain' block blockId continuationPc st =
        (case drawUid st of (loopStaticId, st0) \<Rightarrow>
         do {
           (initPc, st1) \<leftarrow> allocPc st0;
           (checkPc, st2) \<leftarrow> allocPc st1;
           (yieldRedirectPc, st3) \<leftarrow> allocPc (onBlocks (clearParent (inputOf block ''TIMES'')) st2);
           (bodyEntryPc, st4) \<leftarrow>
             (if truthy (inputOf block ''SUBSTACK'')
              then decomposeChain'
                     (chainOfInput (dBlocks st3) (inputOf block ''SUBSTACK''))
                     yieldRedirectPc (setRedirect yieldRedirectPc checkPc st3)
              else Some (yieldRedirectPc, setRedirect yieldRedirectPc checkPc st3));
           Some (initPc,
             onBlocks (deleteBlock blockId)
               (pushState
                  ((plainState checkPc [] continuationPc False)
                     \<lparr>repeatCheck :=
                        Some (RepeatCheckInfo loopStaticId bodyEntryPc continuationPc)\<rparr>)
                  (pushState
                     ((plainState initPc [] checkPc False)
                        \<lparr>repeatInit :=
                           Some (RepeatInitInfo (orEmpty (inputOf block ''TIMES''))
                                   loopStaticId)\<rparr>)
                     st4)))
         })"

definition decomposeForEach :: "chainDecomposer \<Rightarrow> controlDecomposer" where
  "decomposeForEach decomposeChain' block blockId continuationPc st =
        (case drawUid (onBlocks (clearParent (inputOf block ''VALUE'')) st) of
           (loopCounterStaticId, sta) \<Rightarrow>
         case drawUid sta of (loopBoundStaticId, stb) \<Rightarrow>
         do {
           (initPc, st1) \<leftarrow> allocPc stb;
           (checkPc, st2) \<leftarrow> allocPc st1;
           (yieldRedirectPc, st3) \<leftarrow> allocPc st2;
           (bodyEntryPc, st4) \<leftarrow>
             (if truthy (inputOf block ''SUBSTACK'')
              then decomposeChain'
                     (chainOfInput (dBlocks st3) (inputOf block ''SUBSTACK''))
                     yieldRedirectPc (setRedirect yieldRedirectPc checkPc st3)
              else Some (yieldRedirectPc, setRedirect yieldRedirectPc checkPc st3));
           Some (initPc,
             onBlocks (deleteBlock blockId)
               (pushState
                  ((plainState checkPc [] continuationPc False)
                     \<lparr>forEachCheck :=
                        Some (ForEachCheckInfo
                                (case map_of (blockFields block) ''VARIABLE'' of
                                   Some (nm, i) \<Rightarrow> nm | None \<Rightarrow> [])
                                (case map_of (blockFields block) ''VARIABLE'' of
                                   Some (nm, i) \<Rightarrow> i | None \<Rightarrow> None)
                                loopCounterStaticId loopBoundStaticId
                                bodyEntryPc continuationPc)\<rparr>)
                  (pushState
                     ((plainState initPc [] checkPc False)
                        \<lparr>forEachInit :=
                           Some (ForEachInitInfo (orEmpty (inputOf block ''VALUE''))
                                   loopCounterStaticId loopBoundStaticId)\<rparr>)
                     st4)))
         })"

definition decomposeRepeatUntilWhile :: "chainDecomposer \<Rightarrow> controlDecomposer" where
  "decomposeRepeatUntilWhile decomposeChain' block blockId continuationPc st =
        do {
          (checkPc, st1) \<leftarrow> allocPc st;
          (yieldRedirectPc, st2) \<leftarrow>
            allocPc (onBlocks (clearParent (inputOf block ''CONDITION'')) st1);
          (bodyEntryPc, st3) \<leftarrow>
            (if truthy (inputOf block ''SUBSTACK'')
             then decomposeChain'
                    (chainOfInput (dBlocks st2) (inputOf block ''SUBSTACK''))
                    yieldRedirectPc (setRedirect yieldRedirectPc checkPc st2)
             else Some (yieldRedirectPc, setRedirect yieldRedirectPc checkPc st2));
          Some (checkPc,
            onBlocks (deleteBlock blockId)
              (pushState
                 ((plainState checkPc [] continuationPc False)
                    \<lparr>branch :=
                       Some (if opcode block = ''control_repeat_until''
                             then BranchInfo (orEmpty (inputOf block ''CONDITION''))
                                    continuationPc bodyEntryPc
                             else BranchInfo (orEmpty (inputOf block ''CONDITION''))
                                    bodyEntryPc continuationPc)\<rparr>)
                 st3))
        }"

definition decomposeAllAtOnce :: "chainDecomposer \<Rightarrow> controlDecomposer" where
  "decomposeAllAtOnce decomposeChain' block blockId continuationPc st =
        (if truthy (inputOf block ''SUBSTACK'')
         then decomposeChain'
                (chainOfInput (deleteBlock blockId (dBlocks st)) (inputOf block ''SUBSTACK''))
                continuationPc (onBlocks (deleteBlock blockId) st)
         else Some (continuationPc, onBlocks (deleteBlock blockId) st))"

definition decomposeWait :: controlDecomposer where
  "decomposeWait block blockId continuationPc st =
        (case (case map_of (inputs block) ''DURATION'' of
                 Some (RefId durVal) \<Rightarrow> (durVal, onBlocks (setParent durVal None) st)
               | Some (InlinePrim t) \<Rightarrow> newLiteral (NumberOfText t) st
               | Some NullVal \<Rightarrow> newLiteral NumberZero st
               | None \<Rightarrow> newLiteral NumberZero st) of
           (durExprId, st0) \<Rightarrow>
         do {
           (startPc, st1) \<leftarrow> allocPc (onBlocks (deleteBlock blockId) st0);
           (pollPc, st2) \<leftarrow> allocPc st1;
           Some (startPc,
             pushState
               ((plainState pollPc [] continuationPc False)
                  \<lparr>waitPoll := Some (WaitPollInfo continuationPc True)\<rparr>)
               (pushState
                  ((plainState startPc [] pollPc False)
                     \<lparr>waitStart := Some (WaitStartInfo durExprId pollPc)\<rparr>)
                  st2))
         })"

definition decomposeWaitUntil :: controlDecomposer where
  "decomposeWaitUntil block blockId continuationPc st =
        do {
          (checkPc, st1) \<leftarrow> allocPc st;
          (yieldRedirectPc, st2) \<leftarrow> allocPc st1;
          Some (checkPc,
            onBlocks (deleteBlock blockId)
              (pushState
                 ((plainState checkPc [] continuationPc False)
                    \<lparr>branch := Some (BranchInfo (orEmpty (inputOf block ''CONDITION''))
                                       continuationPc yieldRedirectPc)\<rparr>)
                 (onBlocks (clearParent (inputOf block ''CONDITION''))
                    (setRedirect yieldRedirectPc checkPc st2))))
        }"

definition decomposeBroadcastAndWait :: controlDecomposer where
  "decomposeBroadcastAndWait block blockId continuationPc st =
        (case (case map_of (inputs block) ''BROADCAST_INPUT'' of
                 Some (RefId bcastVal) \<Rightarrow>
                   (case getFullBlock (dBlocks st) bcastVal of
                      Some refBlock \<Rightarrow>
                        if opcode refBlock = ''event_broadcast_menu''
                        then (case newLiteral
                                     (TextOf (case map_of (blockFields refBlock) ''BROADCAST_OPTION'' of
                                                Some (nm, i) \<Rightarrow> nm | None \<Rightarrow> [])) st of
                                (i, sta) \<Rightarrow> (i, onBlocks (deleteBlock bcastVal) sta))
                        else (bcastVal, onBlocks (setParent bcastVal None) st)
                    | None \<Rightarrow> newLiteral (TextOf []) st)
               | Some (InlinePrim t) \<Rightarrow> newLiteral (TextOf t) st
               | Some NullVal \<Rightarrow> newLiteral (TextOf []) st
               | None \<Rightarrow> newLiteral (TextOf []) st) of
           (bcastExprId, st0) \<Rightarrow>
         do {
           (startPc, st1) \<leftarrow> allocPc (onBlocks (deleteBlock blockId) st0);
           (pollPc, st2) \<leftarrow> allocPc st1;
           Some (startPc,
             pushState
               ((plainState pollPc [] continuationPc False)
                  \<lparr>waitPoll := Some (WaitPollInfo continuationPc False)\<rparr>)
               (pushState
                  ((plainState startPc [] pollPc False)
                     \<lparr>broadcastWaitStart := Some (BroadcastWaitStartInfo bcastExprId pollPc)\<rparr>)
                  st2))
         })"

definition decomposeStop :: controlDecomposer where
  "decomposeStop block blockId continuationPc st =
        do {
          (p, st1) \<leftarrow> allocPc st;
          Some (p,
            pushState ((plainState p [blockId] EXIT_PC False)\<lparr>isTerminal := True\<rparr>)
              (onBlocks (\<lambda>bm. setNext blockId None (setParent blockId None bm)) st1))
        }"

definition decomposeDefault :: controlDecomposer where
  "decomposeDefault block blockId continuationPc st =
        do {
          (p, st1) \<leftarrow> allocPc st;
          Some (p,
            pushState (plainState p [blockId] continuationPc False)
              (onBlocks (\<lambda>bm. setNext blockId None (setParent blockId None bm)) st1))
        }"

definition decomposeControlBlockWith :: "chainDecomposer \<Rightarrow> controlDecomposer" where
  "decomposeControlBlockWith decomposeChain' block blockId continuationPc st =
     (if opcode block = ''control_if'' then
        decomposeIf decomposeChain' block blockId continuationPc st
      else if opcode block = ''control_if_else'' then
        decomposeIfElse decomposeChain' block blockId continuationPc st
      else if opcode block = ''control_forever'' then
        decomposeForever decomposeChain' block blockId continuationPc st
      else if opcode block = ''control_repeat'' then
        decomposeRepeat decomposeChain' block blockId continuationPc st
      else if opcode block = ''control_for_each'' then
        decomposeForEach decomposeChain' block blockId continuationPc st
      else if opcode block = ''control_repeat_until'' \<or> opcode block = ''control_while'' then
        decomposeRepeatUntilWhile decomposeChain' block blockId continuationPc st
      else if opcode block = ''control_all_at_once'' then
        decomposeAllAtOnce decomposeChain' block blockId continuationPc st
      else if opcode block = ''control_wait'' then
        decomposeWait block blockId continuationPc st
      else if opcode block = ''control_wait_until'' then
        decomposeWaitUntil block blockId continuationPc st
      else if opcode block = ''event_broadcastandwait'' then
        decomposeBroadcastAndWait block blockId continuationPc st
      else if opcode block = ''control_stop'' \<or> opcode block = ''control_delete_this_clone'' then
        decomposeStop block blockId continuationPc st
      else decomposeDefault block blockId continuationPc st)"

fun decomposeSegmentsWith ::
  "controlDecomposer \<Rightarrow> segment list \<Rightarrow> int \<Rightarrow> dstate \<Rightarrow> (int \<times> dstate) option" where
  "decomposeSegmentsWith decomposeControlBlock' [] nextSegmentPc st = Some (nextSegmentPc, st)"
| "decomposeSegmentsWith decomposeControlBlock' (Linear ids # segs) nextSegmentPc st =
     do {
       (p, st1) \<leftarrow> allocPc st;
       decomposeSegmentsWith decomposeControlBlock' segs p
         (pushState (plainState p ids nextSegmentPc False) (onBlocks (isolateChain ids) st1))
     }"
| "decomposeSegmentsWith decomposeControlBlock' (Control blockId # segs) nextSegmentPc st =
     do {
       block \<leftarrow> getFullBlock (dBlocks st) blockId;
       (controlPc, st1) \<leftarrow> decomposeControlBlock' block blockId nextSegmentPc st;
       decomposeSegmentsWith decomposeControlBlock' segs controlPc st1
     }"

definition decomposeChainWith :: "controlDecomposer \<Rightarrow> chainDecomposer" where
  "decomposeChainWith decomposeControlBlock' blockIds continuationPc st =
     (if blockIds = [] then Some (continuationPc, st)
      else if segmentsFrom (dBlocks st) blockIds [] = [] then Some (continuationPc, st)
      else decomposeSegmentsWith decomposeControlBlock'
             (rev (segmentsFrom (dBlocks st) blockIds [])) continuationPc st)"

primrec decomposeChain :: "nat \<Rightarrow> chainDecomposer" where
  "decomposeChain 0 = (\<lambda>blockIds continuationPc st. None)"
| "decomposeChain (Suc n) =
     decomposeChainWith (decomposeControlBlockWith (decomposeChain n))"

definition decomposeControlBlock :: "nat \<Rightarrow> controlDecomposer" where
  "decomposeControlBlock n = decomposeControlBlockWith (decomposeChain n)"

subsection \<open>Decoy states, shuffling and the result of the decomposition\<close>

text \<open>
  The chains of decoy blocks come from deadcode.ts, which is not part of the sources at
  hand: a parameter that, told whether to build a dynamic chain and how long, adds
  blocks to the block map and returns the identifiers of the chain, and how many random
  numbers and how many identifiers it drew.
\<close>

type_synonym deadCodeGen =
  "bool \<Rightarrow> int \<Rightarrow> blockMap \<Rightarrow> gen \<Rightarrow> string list \<times> blockMap \<times> nat \<times> nat"

definition advance :: "nat \<Rightarrow> nat \<Rightarrow> gen \<Rightarrow> gen" where
  "advance nr nu g = g\<lparr>rndPos := rndPos g + nr, uidPos := uidPos g + nu\<rparr>"

partial_function (option) deadNextPc :: "gen \<Rightarrow> (int \<times> gen) option" where
  [code]: "deadNextPc g =
     (case randomHugeInt g of
        None \<Rightarrow> None
      | Some (p, g1) \<Rightarrow> if p = EXIT_PC then deadNextPc g1 else Some (p, g1))"

text \<open>The loop of \<open>generateDeadStates\<close>, \<open>k\<close> states still to make. Its allocation loop is a
  copy of the one in \<open>allocPc\<close>, on the same set of used program counters.\<close>

fun generateDeadStatesFrom ::
  "deadCodeGen \<Rightarrow> cffConfig \<Rightarrow> nat \<Rightarrow> dstate \<Rightarrow> (CFGState list \<times> dstate) option" where
  "generateDeadStatesFrom deadCode config 0 st = Some ([], st)"
| "generateDeadStatesFrom deadCode config (Suc k) st =
     do {
       (p, st1) \<leftarrow> allocPc st;
       (case randomInt (minChainLength config) (maxChainLength config) (dgen st1) of
          (chainLen, g1) \<Rightarrow>
        case (if dynamicDeadCode config then randomBool g1 else (False, g1)) of
          (dynamic, g2) \<Rightarrow>
        case deadCode dynamic chainLen (dBlocks st1) g2 of
          (bodyIds, bm, nr, nu) \<Rightarrow>
            do {
              (nextPc', g4) \<leftarrow> deadNextPc (advance nr nu g2);
              (rest, st2) \<leftarrow>
                generateDeadStatesFrom deadCode config k
                  (st1\<lparr>dBlocks := linkChain bodyIds bm, dgen := g4\<rparr>);
              Some (plainState p bodyIds nextPc' True # rest, st2)
            })
     }"

definition generateDeadStates ::
  "deadCodeGen \<Rightarrow> cffConfig \<Rightarrow> dstate \<Rightarrow> (CFGState list \<times> dstate) option" where
  "generateDeadStates deadCode config st =
     generateDeadStatesFrom deadCode config (deadStatesPerScript config) st"

text \<open>\<open>shuffle\<close> (uid.ts): for \<open>i\<close> from the last index down to 1, swap \<open>a[i]\<close> with \<open>a[j]\<close>,
  \<open>j = floor(random * (i + 1))\<close>.\<close>

definition swapAt :: "nat \<Rightarrow> nat \<Rightarrow> 'a list \<Rightarrow> 'a list" where
  "swapAt i j a = a[i := a ! j, j := a ! i]"

fun shuffleFrom :: "nat \<Rightarrow> 'a list \<Rightarrow> gen \<Rightarrow> 'a list \<times> gen" where
  "shuffleFrom 0 a g = (a, g)"
| "shuffleFrom (Suc i) a g =
     (case mathRandom g of (r, g1) \<Rightarrow>
        shuffleFrom i (swapAt (Suc i) (nat \<lfloor>r * real (Suc i + 1)\<rfloor>) a) g1)"

definition shuffle :: "'a list \<Rightarrow> gen \<Rightarrow> 'a list \<times> gen" where
  "shuffle a g = shuffleFrom (length a - 1) a g"

record cfgResult =
  rStates :: "CFGState list"
  rEntryPc :: int
  rRedirects :: "int \<rightharpoonup> int"

definition initialDstate :: "blockMap \<Rightarrow> gen \<Rightarrow> dstate" where
  "initialDstate bm g =
     \<lparr> dStates = [], usedPcs = {}, dRedirects = Map.empty, dBlocks = bm, dgen = g \<rparr>"

text \<open>\<open>decomposeToCFG\<close>: the result, the block map as the decomposition leaves it, and the
  random sources.\<close>

definition decomposeToCFG ::
  "nat \<Rightarrow> deadCodeGen \<Rightarrow> blockMap \<Rightarrow> string list \<Rightarrow> cffConfig \<Rightarrow> gen
     \<Rightarrow> (cfgResult \<times> blockMap \<times> gen) option" where
  "decomposeToCFG fuel deadCode bm chainIds config g =
     do {
       (entryPc, st1) \<leftarrow> decomposeChain fuel chainIds EXIT_PC (initialDstate bm g);
       (deadStates, st2) \<leftarrow> generateDeadStates deadCode config st1;
       (case shuffle (dStates st1 @ deadStates) (dgen st2) of
          (shuffled, g1) \<Rightarrow>
            Some (\<lparr> rStates = shuffled, rEntryPc = entryPc, rRedirects = dRedirects st2 \<rparr>,
                  dBlocks st2, g1))
     }"

subsection \<open>What the decomposition keeps true of its program counters\<close>

text \<open>
  \<open>genKept\<close>: two generators read the same sources, at positions that may differ.
  \<open>pcInv\<close>: the states pushed so far have pairwise different program counters, all of
  them recorded in \<open>usedPcs\<close>, and the exit value is not among them. \<open>ext st st2\<close>: \<open>st2\<close>
  is a later point of the same decomposition, where every state pushed since \<open>st\<close> carries
  a program counter allocated since \<open>st\<close>. \<open>T st0 P st\<close> adds the program counters \<open>P\<close>
  that were allocated since \<open>st0\<close> and wait for their state to be pushed.
\<close>

definition genKept :: "gen \<Rightarrow> gen \<Rightarrow> bool" where
  "genKept g g2 = (rndSrc g2 = rndSrc g \<and> uidSrc g2 = uidSrc g)"

definition pcsOf :: "dstate \<Rightarrow> int set" where
  "pcsOf st = pc ` set (dStates st)"

definition pcInv :: "dstate \<Rightarrow> bool" where
  "pcInv st = (distinct (map pc (dStates st)) \<and> pcsOf st \<subseteq> usedPcs st
               \<and> EXIT_PC \<notin> usedPcs st)"

definition ext :: "dstate \<Rightarrow> dstate \<Rightarrow> bool" where
  "ext st st2 =
     (pcInv st2 \<and> usedPcs st \<subseteq> usedPcs st2
      \<and> pcsOf st2 \<subseteq> pcsOf st \<union> (usedPcs st2 - usedPcs st)
      \<and> genKept (dgen st) (dgen st2))"

definition recOk :: "chainDecomposer \<Rightarrow> bool" where
  "recOk f = (\<forall>ids c s e s2. pcInv s \<longrightarrow> f ids c s = Some (e, s2) \<longrightarrow> ext s s2)"

definition T :: "dstate \<Rightarrow> int list \<Rightarrow> dstate \<Rightarrow> bool" where
  "T st0 P st = (ext st0 st \<and> distinct P \<and> set P \<subseteq> usedPcs st - usedPcs st0
                 \<and> set P \<inter> pcsOf st = {})"

subsection \<open>Shapes of scripts and of states that the properties speak about\<close>

text \<open>
  \<open>singleStatement\<close>: a block that is no control block and has no successor.
  \<open>ifElseOfSingles\<close>: an if-else block whose two substacks are one such statement each.
  \<open>branchState\<close>: the state object that the conditionals push.
\<close>

definition singleStatement :: "blockMap \<Rightarrow> string \<Rightarrow> bool" where
  "singleStatement bm a =
     (a \<noteq> [] \<and> (case getFullBlock bm a of
                   Some b \<Rightarrow> \<not> isControlOpcode (opcode b) \<and> nextId b = None
                 | None \<Rightarrow> False))"

definition ifElseOfSingles :: "blockMap \<Rightarrow> string \<Rightarrow> inputval \<Rightarrow> string \<Rightarrow> string \<Rightarrow> bool" where
  "ifElseOfSingles bm ifId cond a b =
     ((case getFullBlock bm ifId of
         Some blk \<Rightarrow> opcode blk = ''control_if_else'' \<and> inputOf blk ''CONDITION'' = cond
                     \<and> inputOf blk ''SUBSTACK'' = RefId a \<and> inputOf blk ''SUBSTACK2'' = RefId b
       | None \<Rightarrow> False)
      \<and> singleStatement bm a \<and> singleStatement bm b)"

definition branchState :: "int \<Rightarrow> int \<Rightarrow> inputval \<Rightarrow> int \<Rightarrow> int \<Rightarrow> CFGState" where
  "branchState p cont cond tPc fPc =
     (plainState p [] cont False)\<lparr>branch := Some (BranchInfo (orEmpty cond) tPc fPc)\<rparr>"

definition foreverOfSingle :: "blockMap \<Rightarrow> string \<Rightarrow> string \<Rightarrow> bool" where
  "foreverOfSingle bm fid a =
     ((case getFullBlock bm fid of
         Some blk \<Rightarrow> opcode blk = ''control_forever'' \<and> inputOf blk ''SUBSTACK'' = RefId a
       | None \<Rightarrow> False)
      \<and> singleStatement bm a)"

definition waitReceiver :: "TargetCFFLists \<Rightarrow> gen \<Rightarrow> script" where
  "waitReceiver ls g = snd (fst (buildWaitHandler ls g))"

definition handleWaitDef :: "TargetCFFLists \<Rightarrow> gen \<Rightarrow> procDef" where
  "handleWaitDef ls g = fst (fst (buildWaitHandler ls g))"

definition savedTidOf :: "gen \<Rightarrow> string" where
  "savedTidOf g = fst (uid (snd (uid (snd (uid g)))))"

definition afterPop :: "TargetCFFLists \<Rightarrow> string \<Rightarrow> sval \<Rightarrow> sval list \<Rightarrow> runtime \<Rightarrow> runtime" where
  "afterPop ls sv t rest rt =
     (if rest \<noteq> [] then emit (Broadcast (waitBroadcastId ls)) else id)
       (setList (waitQueueId ls) rest (setVar sv t rt))"




subsection \<open>Concrete inputs used to instantiate the theorems\<close>

definition exLists :: TargetCFFLists where
  "exLists = \<lparr> pcIdId = ''pcIds'', pcValId = ''pcVals'', counterKeyId = ''counterKeys'',
     counterValId = ''counterVals'', waitFlagId = ''waitFlags'',
     bcastPendingMsgId = ''bcastPendingMsg'', waitQueueId = ''waitQueue'',
     waitBroadcastId = ''waitBroadcast'', startBroadcastId = ''startBroadcast'',
     hasTimerWait = True, hasBroadcastWait = False \<rparr>"

definition exCtx :: ScriptCFFContext where
  "exCtx = \<lparr> lists = exLists, runProccode = ''run %s'', runArgNames = [''tid''],
     runArgTypes = [], stepProccode = ''step %s'', stepArgNames = [''tid''],
     cachedPcVarId = ''cachedPc'', keepGoingVarId = ''keepGoing'',
     baseIndexVarId = ''baseIndex'' \<rparr>"

definition exConfig :: cffConfig where
  "exConfig = \<lparr> enabled = True, deadStatesPerScript = 1, minBlocksToFlatten = 1,
     flattenProcedures = True, obfuscatePcTransitions = True, minChainLength = 1,
     maxChainLength = 2, dynamicDeadCode = False \<rparr>"

definition exGen :: gen where
  "exGen = \<lparr> rndSrc = (\<lambda>n. 1 / 2), rndPos = 0,
     uidSrc = (\<lambda>n. ''v'' @ replicate n (CHR ''x'')), uidPos = 0 \<rparr>"


definition exVM :: scratchVM where
  "exVM = \<lparr> textNum = (\<lambda>s. None), numText = (\<lambda>r. ''n''),
     textCmp = (\<lambda>opc a b. opc = operator_equals \<and> a = b), textTruth = (\<lambda>s. s \<noteq> []),
     inputValue = (\<lambda>v a rt. SNum 3), randomPick = (\<lambda>a b rt. a),
     origBlock = (\<lambda>bid a rt. (Continue, rt)) \<rparr>"

definition exArgs :: "string \<Rightarrow> sval" where
  "exArgs = (\<lambda>a. SNum 41)"

definition exRt :: runtime where
  "exRt = \<lparr> vars = (\<lambda>x. if x = ''cachedPc'' then SNum 7 else SNum 0),
     rlists = (\<lambda>l. []), events = [] \<rparr>"

definition exDraws :: gen where
  "exDraws = \<lparr> rndSrc = (\<lambda>n. 1 / real (n + 2)), rndPos = 0,
     uidSrc = (\<lambda>n. ''v'' @ replicate n (CHR ''x'')), uidPos = 0 \<rparr>"

definition exDeadCode :: deadCodeGen where
  "exDeadCode = (\<lambda>dynamic chainLen bm g. ([], bm, 0, 0))"

definition exSetBlock :: "string option \<Rightarrow> string option \<Rightarrow> SB3Block" where
  "exSetBlock n p = \<lparr> opcode = ''data_setvariableto'', nextId = n, parentId = p,
     inputs = [(''VALUE'', InlinePrim ''1'')], blockFields = [(''VARIABLE'', ''y'', Some ''yId'')],
     topLevel = False, mutation = None \<rparr>"

definition exLinearMap :: blockMap where
  "exLinearMap = [(''a'', FullBlock (exSetBlock None (Some ''hat'')))]"

definition exIfElseBlock :: SB3Block where
  "exIfElseBlock = \<lparr> opcode = ''control_if_else'', nextId = None, parentId = Some ''hat'',
     inputs = [(''CONDITION'', RefId ''c''), (''SUBSTACK'', RefId ''a''),
               (''SUBSTACK2'', RefId ''b'')],
     blockFields = [], topLevel = False, mutation = None \<rparr>"

definition exIfElseMap :: blockMap where
  "exIfElseMap =
     [(''if1'', FullBlock exIfElseBlock),
      (''c'', FullBlock \<lparr> opcode = ''operator_gt'', nextId = None, parentId = Some ''if1'',
         inputs = [(''OPERAND1'', InlinePrim ''x''), (''OPERAND2'', InlinePrim ''0'')],
         blockFields = [], topLevel = False, mutation = None \<rparr>),
      (''a'', FullBlock (exSetBlock None (Some ''if1''))),
      (''b'', FullBlock (exSetBlock None (Some ''if1'')))]"

definition exForeverBlock :: SB3Block where
  "exForeverBlock = \<lparr> opcode = ''control_forever'', nextId = None, parentId = Some ''hat'',
     inputs = [(''SUBSTACK'', RefId ''a'')],
     blockFields = [], topLevel = False, mutation = None \<rparr>"

definition exEmptyForeverBlock :: SB3Block where
  "exEmptyForeverBlock = \<lparr> opcode = ''control_forever'', nextId = None,
     parentId = Some ''hat'', inputs = [],
     blockFields = [], topLevel = False, mutation = None \<rparr>"

definition exForeverMap :: blockMap where
  "exForeverMap =
     [(''f1'', FullBlock exForeverBlock), (''a'', FullBlock (exSetBlock None (Some ''f1'')))]"

definition exQueueRt :: runtime where
  "exQueueRt = \<lparr> vars = (\<lambda>x. SNum 0),
     rlists = (\<lambda>l. if l = ''waitQueue'' then [SText ''t1'', SText ''t2''] else []),
     events = [] \<rparr>"

definition exIdleRt :: runtime where
  "exIdleRt = \<lparr> vars = (\<lambda>x. SNum 0), rlists = (\<lambda>l. []), events = [] \<rparr>"


section \<open>Properties\<close>

subsection \<open>The dispatch tree\<close>











subsection \<open>Program-counter transitions\<close>

lemma toNumber_SNum [simp]: "toNumber vm (SNum r) = r"
  by (simp add: toNumber_def)

lemma randomInt_range:
  assumes "0 \<le> rndSrc g (rndPos g)" "rndSrc g (rndPos g) < 1" "lo \<le> hi"
  shows "lo \<le> fst (randomInt lo hi g) \<and> fst (randomInt lo hi g) \<le> hi"
proof -
  define r where "r = rndSrc g (rndPos g)"
  define w where "w = real_of_int (hi + 1) - real_of_int lo"
  define x where "x = r * w + real_of_int lo"
  have fx: "fst (randomInt lo hi g) = \<lfloor>x\<rfloor>"
    by (simp add: randomInt_def randomNumber_def mathRandom_def x_def w_def r_def)
  have w: "0 < w" using assms(3) by (simp add: w_def)
  have r: "0 \<le> r" "r < 1" using assms by (simp_all add: r_def)
  have "0 \<le> r * w" using r w by simp
  then have "real_of_int lo \<le> x" by (simp add: x_def)
  then have a: "lo \<le> \<lfloor>x\<rfloor>" by (simp add: le_floor_iff)
  have "r * w < 1 * w" using r(2) w by (rule mult_strict_right_mono)
  then have "x < real_of_int (hi + 1)" by (simp add: x_def w_def)
  then have "\<lfloor>x\<rfloor> < hi + 1" by (subst floor_less_iff)
  then have b: "\<lfloor>x\<rfloor> \<le> hi" by simp
  show ?thesis using a b fx by simp
qed

lemma randomInt_pos [simp]: "rndPos (snd (randomInt lo hi g)) = Suc (rndPos g)"
  "rndSrc (snd (randomInt lo hi g)) = rndSrc g"
  by (simp_all add: randomInt_def randomNumber_def mathRandom_def)

lemma exactIntI: "v = SNum (real_of_int k) \<Longrightarrow> \<bar>k\<bar> < 2 ^ 53 \<Longrightarrow> exactInt v"
  unfolding exactInt_def by blast

text \<open>
  C4. With the cached program counter equal to the current state's program counter,
  every expression that \<open>buildObfuscatedPcExpr\<close> can emit (whatever the random choices)
  has the value of the literal it replaces. For program counters of the allocation
  domain and random numbers in \<open>[0, 1)\<close>, every intermediate value is an integer that a
  double holds exactly, so the equality is exact in the runtime's arithmetic.
\<close>

theorem obfuscated_pc_expr_exact:
  assumes cached: "vars rt (cachedPcVarId ctx) = SNum (real_of_int cur)"
  shows "eval vm args rt (fst (buildObfuscatedPcExpr ctx cur nxt g))
           = eval vm args rt (NumberLiteral nxt)
         \<and> (PC_MIN \<le> cur \<and> cur \<le> PC_MAX \<and> PC_MIN \<le> nxt \<and> nxt \<le> PC_MAX
              \<and> (\<forall>n. 0 \<le> rndSrc g n \<and> rndSrc g n < 1)
            \<longrightarrow> (\<forall>e \<in> set (subexprs (fst (buildObfuscatedPcExpr ctx cur nxt g))).
                   exactInt (eval vm args rt e)))"
proof
  show "eval vm args rt (fst (buildObfuscatedPcExpr ctx cur nxt g))
           = eval vm args rt (NumberLiteral nxt)"
    using cached
    by (auto simp: buildObfuscatedPcExpr_def Let_def split: prod.splits)
next
  show "PC_MIN \<le> cur \<and> cur \<le> PC_MAX \<and> PC_MIN \<le> nxt \<and> nxt \<le> PC_MAX
              \<and> (\<forall>n. 0 \<le> rndSrc g n \<and> rndSrc g n < 1)
            \<longrightarrow> (\<forall>e \<in> set (subexprs (fst (buildObfuscatedPcExpr ctx cur nxt g))).
                   exactInt (eval vm args rt e))"
  proof (intro impI ballI, elim conjE)
    fix e
    assume d: "PC_MIN \<le> cur" "cur \<le> PC_MAX" "PC_MIN \<le> nxt" "nxt \<le> PC_MAX"
      and r: "\<forall>n. 0 \<le> rndSrc g n \<and> rndSrc g n < 1"
      and e: "e \<in> set (subexprs (fst (buildObfuscatedPcExpr ctx cur nxt g)))"
    obtain kind g1 where k: "randomInt 1 4 g = (kind, g1)" by (cases "randomInt 1 4 g")
    obtain scr g2 where s: "randomInt 1000 99999 g1 = (scr, g2)"
      by (cases "randomInt 1000 99999 g1")
    have g1: "g1 = snd (randomInt 1 4 g)" using k by simp
    have "1000 \<le> fst (randomInt 1000 99999 g1) \<and> fst (randomInt 1000 99999 g1) \<le> 99999"
      by (rule randomInt_range) (use r g1 in auto)
    then have sb: "1000 \<le> scr" "scr \<le> 99999" using s by auto
    have b: "- 10000000000000 \<le> cur" "cur \<le> 10000000000000"
            "- 10000000000000 \<le> nxt" "nxt \<le> 10000000000000"
      using d by (simp_all add: PC_MIN_def PC_MAX_def)
    let ?c = "ReadVariable (cachedPcVarId ctx)"
    have rc: "eval vm args rt ?c = SNum (real_of_int cur)" using cached by simp
    consider (k1) "kind = 1" | (k2) "kind = 2" | (k3) "kind = 3" | (k4) "kind = 4"
      | (other) "kind \<noteq> 1" "kind \<noteq> 2" "kind \<noteq> 3" "kind \<noteq> 4" by blast
    then show "exactInt (eval vm args rt e)"
    proof cases
      case k1
      then have "e \<in> {MathOp operator_add ?c (NumberLiteral (nxt - cur)), ?c,
                       NumberLiteral (nxt - cur)}"
        using e k by (auto simp: buildObfuscatedPcExpr_def Let_def)
      then consider "eval vm args rt e = SNum (real_of_int nxt)"
        | "eval vm args rt e = SNum (real_of_int cur)"
        | "eval vm args rt e = SNum (real_of_int (nxt - cur))"
        using rc by auto
      then show ?thesis
        by cases (erule exactIntI, use b in simp)+
    next
      case k2
      then have "e \<in> {MathOp operator_subtract ?c (NumberLiteral (- (nxt - cur))), ?c,
                       NumberLiteral (- (nxt - cur))}"
        using e k by (auto simp: buildObfuscatedPcExpr_def Let_def)
      then consider "eval vm args rt e = SNum (real_of_int nxt)"
        | "eval vm args rt e = SNum (real_of_int cur)"
        | "eval vm args rt e = SNum (real_of_int (- (nxt - cur)))"
        using rc by auto
      then show ?thesis
        by cases (erule exactIntI, use b in simp)+
    next
      case k3
      then have "e \<in> {MathOp operator_subtract
                         (MathOp operator_add ?c (NumberLiteral scr))
                         (NumberLiteral (scr - (nxt - cur))),
                       MathOp operator_add ?c (NumberLiteral scr), ?c, NumberLiteral scr,
                       NumberLiteral (scr - (nxt - cur))}"
        using e k s by (auto simp: buildObfuscatedPcExpr_def Let_def)
      then consider "eval vm args rt e = SNum (real_of_int nxt)"
        | "eval vm args rt e = SNum (real_of_int (cur + scr))"
        | "eval vm args rt e = SNum (real_of_int cur)"
        | "eval vm args rt e = SNum (real_of_int scr)"
        | "eval vm args rt e = SNum (real_of_int (scr - (nxt - cur)))"
        using rc by auto
      then show ?thesis
        by cases (erule exactIntI, use b sb in simp)+
    next
      case k4
      then have "e \<in> {MathOp operator_divide
                         (MathOp operator_add (MathOp operator_multiply ?c (NumberLiteral 2))
                            (NumberLiteral ((nxt - cur) * 2)))
                         (NumberLiteral 2),
                       MathOp operator_add (MathOp operator_multiply ?c (NumberLiteral 2))
                            (NumberLiteral ((nxt - cur) * 2)),
                       MathOp operator_multiply ?c (NumberLiteral 2), ?c, NumberLiteral 2,
                       NumberLiteral ((nxt - cur) * 2)}"
        using e k by (auto simp: buildObfuscatedPcExpr_def Let_def)
      then consider "eval vm args rt e = SNum (real_of_int nxt)"
        | "eval vm args rt e = SNum (real_of_int (cur * 2 + (nxt - cur) * 2))"
        | "eval vm args rt e = SNum (real_of_int (cur * 2))"
        | "eval vm args rt e = SNum (real_of_int cur)"
        | "eval vm args rt e = SNum (real_of_int 2)"
        | "eval vm args rt e = SNum (real_of_int ((nxt - cur) * 2))"
        using rc by auto
      then show ?thesis
        by cases (erule exactIntI, use b in simp)+
    next
      case other
      then have "e = NumberLiteral nxt"
        using e k by (auto simp: buildObfuscatedPcExpr_def Let_def)
      then have "eval vm args rt e = SNum (real_of_int nxt)" by simp
      then show ?thesis by (rule exactIntI) (use b in simp)
    qed
  qed
qed


lemma subexprs_self: "e \<in> set (subexprs e)"
  by (cases e) simp_all

theorem obfuscated_pc_expr_exact_witness:
  "vars exRt (cachedPcVarId exCtx) = SNum (real_of_int 7)
   \<and> eval exVM exArgs exRt (fst (buildObfuscatedPcExpr exCtx 7 (- 4) exGen))
       = eval exVM exArgs exRt (NumberLiteral (- 4))
   \<and> exactInt (eval exVM exArgs exRt (fst (buildObfuscatedPcExpr exCtx 7 (- 4) exGen)))"
proof -
  have c: "vars exRt (cachedPcVarId exCtx) = SNum (real_of_int 7)"
    by (simp add: exRt_def exCtx_def)
  have d: "PC_MIN \<le> 7 \<and> 7 \<le> PC_MAX \<and> PC_MIN \<le> - 4 \<and> - 4 \<le> PC_MAX
           \<and> (\<forall>n. 0 \<le> rndSrc exGen n \<and> rndSrc exGen n < 1)"
    by (simp add: PC_MIN_def PC_MAX_def exGen_def)
  show ?thesis
    using obfuscated_pc_expr_exact[OF c, of exVM exArgs "- 4" exGen] c d subexprs_self
    by blast
qed

subsection \<open>Allocation of program counters\<close>

lemma genKept_refl [simp]: "genKept g g"
  by (simp add: genKept_def)

lemma genKept_trans: "genKept a b \<Longrightarrow> genKept b c \<Longrightarrow> genKept a c"
  by (simp add: genKept_def)

lemma randomHugeInt_result:
  assumes a: "randomHugeInt g = Some y"
  shows "fst y \<noteq> 0 \<and> genKept g (snd y)"
proof (rule randomHugeInt.raw_induct[where P = "\<lambda>g y. fst y \<noteq> 0 \<and> genKept g (snd y)", OF _ a])
  fix f g y
  assume IH: "\<And>x y. f x = Some y \<Longrightarrow> fst y \<noteq> 0 \<and> genKept x (snd y)"
    and eq: "(case mathRandom g of (r, g1) \<Rightarrow>
        if \<lfloor>r * real_of_int (PC_MAX - PC_MIN + 1)\<rfloor> + PC_MIN = 0 then f g1
        else Some (\<lfloor>r * real_of_int (PC_MAX - PC_MIN + 1)\<rfloor> + PC_MIN, g1)) = Some y"
  obtain r g1 where m: "mathRandom g = (r, g1)" by (cases "mathRandom g")
  then have g1: "genKept g g1" by (auto simp: mathRandom_def genKept_def)
  show "fst y \<noteq> 0 \<and> genKept g (snd y)"
  proof (cases "\<lfloor>r * real_of_int (PC_MAX - PC_MIN + 1)\<rfloor> + PC_MIN = 0")
    case True
    with eq m have "f g1 = Some y" by simp
    from IH[OF this] show ?thesis using g1 by (simp add: genKept_def)
  next
    case False
    with eq m show ?thesis using g1 by auto
  qed
qed

lemma allocLoop_result:
  assumes a: "allocLoop used g = Some y"
  shows "fst y \<noteq> EXIT_PC \<and> fst y \<notin> used \<and> genKept g (snd y)"
proof (rule allocLoop.raw_induct[where P = "\<lambda>used g y. fst y \<noteq> EXIT_PC \<and> fst y \<notin> used \<and> genKept g (snd y)", OF _ a])
  fix f used g y
  assume IH: "\<And>used g y. f used g = Some y \<Longrightarrow> fst y \<noteq> EXIT_PC \<and> fst y \<notin> used \<and> genKept g (snd y)"
    and eq: "(case randomHugeInt g of None \<Rightarrow> None
             | Some (p, g1) \<Rightarrow> if p \<in> used \<or> p = EXIT_PC then f used g1 else Some (p, g1)) = Some y"
  from eq obtain q g1 where r: "randomHugeInt g = Some (q, g1)"
    by (auto split: option.splits)
  from randomHugeInt_result[OF r] have h: "genKept g g1" by simp
  show "fst y \<noteq> EXIT_PC \<and> fst y \<notin> used \<and> genKept g (snd y)"
  proof (cases "q \<in> used \<or> q = EXIT_PC")
    case True
    with eq r have "f used g1 = Some y" by simp
    from IH[OF this] show ?thesis using h by (simp add: genKept_def)
  next
    case False
    with eq r show ?thesis using h by auto
  qed
qed

lemma deadNextPc_result:
  assumes a: "deadNextPc g = Some y"
  shows "fst y \<noteq> EXIT_PC \<and> genKept g (snd y)"
proof (rule deadNextPc.raw_induct[where P = "\<lambda>g y. fst y \<noteq> EXIT_PC \<and> genKept g (snd y)", OF _ a])
  fix f g y
  assume IH: "\<And>g y. f g = Some y \<Longrightarrow> fst y \<noteq> EXIT_PC \<and> genKept g (snd y)"
    and eq: "(case randomHugeInt g of None \<Rightarrow> None
             | Some (p, g1) \<Rightarrow> if p = EXIT_PC then f g1 else Some (p, g1)) = Some y"
  from eq obtain q g1 where r: "randomHugeInt g = Some (q, g1)"
    by (auto split: option.splits)
  from randomHugeInt_result[OF r] have h: "genKept g g1" by simp
  show "fst y \<noteq> EXIT_PC \<and> genKept g (snd y)"
  proof (cases "q = EXIT_PC")
    case True
    with eq r have "f g1 = Some y" by simp
    from IH[OF this] show ?thesis using h by (simp add: genKept_def)
  next
    case False
    with eq r show ?thesis using h by auto
  qed
qed

lemma allocPc_result:
  assumes "allocPc st = Some (p, st2)"
  shows "p \<noteq> EXIT_PC" "p \<notin> usedPcs st" "usedPcs st2 = insert p (usedPcs st)"
    "dStates st2 = dStates st" "dRedirects st2 = dRedirects st" "dBlocks st2 = dBlocks st"
    "genKept (dgen st) (dgen st2)"
proof -
  from assms obtain g1 where a: "allocLoop (usedPcs st) (dgen st) = Some (p, g1)"
    and st2: "st2 = st\<lparr>usedPcs := insert p (usedPcs st), dgen := g1\<rparr>"
    by (auto simp: allocPc_def split: option.splits)
  note h = allocLoop_result[OF a]
  show "p \<noteq> EXIT_PC" "p \<notin> usedPcs st" "usedPcs st2 = insert p (usedPcs st)"
    "dStates st2 = dStates st" "dRedirects st2 = dRedirects st" "dBlocks st2 = dBlocks st"
    "genKept (dgen st) (dgen st2)"
    using h st2 by simp_all
qed

lemma onBlocks_fields [simp]:
  "dStates (onBlocks f st) = dStates st" "usedPcs (onBlocks f st) = usedPcs st"
  "dRedirects (onBlocks f st) = dRedirects st" "dgen (onBlocks f st) = dgen st"
  "dBlocks (onBlocks f st) = f (dBlocks st)"
  by (simp_all add: onBlocks_def)

lemma setRedirect_fields [simp]:
  "dStates (setRedirect p q st) = dStates st" "usedPcs (setRedirect p q st) = usedPcs st"
  "dRedirects (setRedirect p q st) = (dRedirects st)(p \<mapsto> q)"
  "dgen (setRedirect p q st) = dgen st" "dBlocks (setRedirect p q st) = dBlocks st"
  by (simp_all add: setRedirect_def)

lemma pushState_fields [simp]:
  "dStates (pushState s st) = dStates st @ [s]" "usedPcs (pushState s st) = usedPcs st"
  "dRedirects (pushState s st) = dRedirects st" "dgen (pushState s st) = dgen st"
  "dBlocks (pushState s st) = dBlocks st"
  by (simp_all add: pushState_def)

lemma drawUid_fields [simp]:
  "dStates (snd (drawUid st)) = dStates st" "usedPcs (snd (drawUid st)) = usedPcs st"
  "dRedirects (snd (drawUid st)) = dRedirects st"
  "genKept (dgen st) (dgen (snd (drawUid st)))"
  "dBlocks (snd (drawUid st)) = dBlocks st"
  by (simp_all add: drawUid_def uid_def genKept_def split: prod.splits)

lemma newLiteral_fields [simp]:
  "dStates (snd (newLiteral l st)) = dStates st" "usedPcs (snd (newLiteral l st)) = usedPcs st"
  "dRedirects (snd (newLiteral l st)) = dRedirects st"
  "genKept (dgen st) (dgen (snd (newLiteral l st)))"
  by (simp_all add: newLiteral_def drawUid_def uid_def genKept_def split: prod.splits)

lemma plainState_pc [simp]: "pc (plainState p b n d) = p"
  by (simp add: plainState_def)

lemma allocPc_sets:
  assumes "allocPc st = Some (p, st2)"
  shows "p \<noteq> EXIT_PC \<and> p \<notin> usedPcs st \<and> usedPcs st2 = insert p (usedPcs st)
         \<and> dStates st2 = dStates st \<and> genKept (dgen st) (dgen st2)"
  using allocPc_result[OF assms] by simp

lemma genKept_simps [simp]:
  "genKept g (snd (uid g))"
  by (simp add: genKept_def uid_def)

lemmas ext_unfold = ext_def pcInv_def pcsOf_def

lemma T_start: "pcInv st0 \<Longrightarrow> T st0 [] st0"
  by (auto simp: T_def ext_def)

lemma T_end: "T st0 P st \<Longrightarrow> ext st0 st"
  by (simp add: T_def)

lemma T_alloc:
  assumes a: "allocPc st = Some (p, st1)" and t: "T st0 P st"
  shows "T st0 (p # P) st1"
proof -
  note h = allocPc_result[OF a]
  from t have e: "pcInv st" "usedPcs st0 \<subseteq> usedPcs st"
    "pcsOf st \<subseteq> pcsOf st0 \<union> (usedPcs st - usedPcs st0)" "genKept (dgen st0) (dgen st)"
    and p: "set P \<subseteq> usedPcs st - usedPcs st0" "set P \<inter> pcsOf st = {}" "distinct P"
    by (simp_all add: T_def ext_def)
  have ps: "pcsOf st1 = pcsOf st" using h(4) by (simp add: pcsOf_def)
  have 1: "pcInv st1" using e(1) h by (auto simp: pcInv_def pcsOf_def)
  have 2: "usedPcs st0 \<subseteq> usedPcs st1" using e(2) h(3) by auto
  have 3: "pcsOf st1 \<subseteq> pcsOf st0 \<union> (usedPcs st1 - usedPcs st0)" using e(3) h(3) ps by auto
  have 4: "genKept (dgen st0) (dgen st1)" using e(4) h(7) by (rule genKept_trans)
  have 5: "set (p # P) \<subseteq> usedPcs st1 - usedPcs st0" using p(1) h(2,3) e(2) by auto
  have "p \<notin> pcsOf st" using e(1) h(2) by (auto simp: pcInv_def)
  then have 6: "set (p # P) \<inter> pcsOf st1 = {}" using p(2) ps by auto
  have 7: "distinct (p # P)" using p(1,3) h(2) by auto
  show ?thesis using 1 2 3 4 5 6 7 by (simp add: T_def ext_def)
qed

lemma T_ext:
  assumes x: "ext st st2" and t: "T st0 P st"
  shows "T st0 P st2"
proof -
  from t have e: "pcInv st" "usedPcs st0 \<subseteq> usedPcs st"
    "pcsOf st \<subseteq> pcsOf st0 \<union> (usedPcs st - usedPcs st0)" "genKept (dgen st0) (dgen st)"
    and p: "set P \<subseteq> usedPcs st - usedPcs st0" "set P \<inter> pcsOf st = {}" "distinct P"
    by (simp_all add: T_def ext_def)
  from x have f: "pcInv st2" "usedPcs st \<subseteq> usedPcs st2"
    "pcsOf st2 \<subseteq> pcsOf st \<union> (usedPcs st2 - usedPcs st)" "genKept (dgen st) (dgen st2)"
    by (simp_all add: ext_def)
  have 2: "usedPcs st0 \<subseteq> usedPcs st2" using e(2) f(2) by auto
  have 3: "pcsOf st2 \<subseteq> pcsOf st0 \<union> (usedPcs st2 - usedPcs st0)" using e(2,3) f(2,3) by auto
  have 4: "genKept (dgen st0) (dgen st2)" using e(4) f(4) by (rule genKept_trans)
  have 5: "set P \<subseteq> usedPcs st2 - usedPcs st0" using p(1) f(2) by auto
  have 6: "set P \<inter> pcsOf st2 = {}" using p f(3) by auto
  show ?thesis using f(1) 2 3 4 5 6 p(3) by (simp add: T_def ext_def)
qed

lemma T_rec:
  assumes r: "rec ids c st = Some (e, st2)" and ok: "recOk rec" and t: "T st0 P st"
  shows "T st0 P st2"
proof -
  from t have "pcInv st" by (simp add: T_def ext_def)
  with r ok have "ext st st2" by (auto simp: recOk_def)
  then show ?thesis using t by (rule T_ext)
qed

lemma T_same:
  assumes d: "dStates st2 = dStates st" "usedPcs st2 = usedPcs st" "genKept (dgen st) (dgen st2)"
    and t: "T st0 P st"
  shows "T st0 P st2"
proof -
  from t have "pcInv st" by (simp add: T_def ext_def)
  then have "ext st st2" using d by (auto simp: ext_def pcInv_def pcsOf_def)
  then show ?thesis using t by (rule T_ext)
qed

lemma T_drawUid: "drawUid st = (u, st2) \<Longrightarrow> T st0 P st \<Longrightarrow> T st0 P st2"
  by (rule T_same[of st2 st]) (auto simp: drawUid_def uid_def genKept_def split: prod.splits)

lemma T_newLiteral: "newLiteral l st = (u, st2) \<Longrightarrow> T st0 P st \<Longrightarrow> T st0 P st2"
  by (rule T_same[of st2 st])
     (auto simp: newLiteral_def drawUid_def uid_def genKept_def onBlocks_def split: prod.splits)

lemma T_onBlocks: "T st0 P st \<Longrightarrow> T st0 P (onBlocks f st)"
  by (rule T_same[of _ st]) simp_all

lemma T_setRedirect: "T st0 P st \<Longrightarrow> T st0 P (setRedirect p q st)"
  by (rule T_same[of _ st]) simp_all

lemma T_push:
  assumes t: "T st0 P st" and m: "pc s \<in> set P"
  shows "T st0 (remove1 (pc s) P) (pushState s st)"
proof -
  from t have e: "pcInv st" "usedPcs st0 \<subseteq> usedPcs st"
    "pcsOf st \<subseteq> pcsOf st0 \<union> (usedPcs st - usedPcs st0)" "genKept (dgen st0) (dgen st)"
    and p: "set P \<subseteq> usedPcs st - usedPcs st0" "set P \<inter> pcsOf st = {}" "distinct P"
    by (simp_all add: T_def ext_def)
  have ps: "pcsOf (pushState s st) = insert (pc s) (pcsOf st)" by (auto simp: pcsOf_def)
  have n: "pc s \<notin> pcsOf st" using m p(2) by auto
  have u: "pc s \<in> usedPcs st" "pc s \<notin> usedPcs st0" using m p(1) by auto
  have 1: "pcInv (pushState s st)" using e(1) n u(1) by (auto simp: pcInv_def pcsOf_def)
  have 3: "pcsOf (pushState s st) \<subseteq> pcsOf st0 \<union> (usedPcs (pushState s st) - usedPcs st0)"
    using e(3) u unfolding ps by auto
  have r: "set (remove1 (pc s) P) = set P - {pc s}" using p(3) by simp
  have 5: "set (remove1 (pc s) P) \<subseteq> usedPcs (pushState s st) - usedPcs st0"
    using p(1) unfolding r by auto
  have 6: "set (remove1 (pc s) P) \<inter> pcsOf (pushState s st) = {}"
    using p(2) unfolding ps r by auto
  have 7: "distinct (remove1 (pc s) P)" using p(3) by simp
  show ?thesis using 1 e(2) 3 e(4) 5 6 7 by (simp add: T_def ext_def)
qed

lemmas T_steps = T_onBlocks T_setRedirect T_push

lemma pc_update_simps [simp]:
  "pc (s\<lparr>branch := b\<rparr>) = pc s" "pc (s\<lparr>repeatInit := ri\<rparr>) = pc s"
  "pc (s\<lparr>repeatCheck := rc\<rparr>) = pc s" "pc (s\<lparr>isTerminal := t\<rparr>) = pc s"
  "pc (s\<lparr>waitStart := ws\<rparr>) = pc s" "pc (s\<lparr>waitPoll := wp\<rparr>) = pc s"
  "pc (s\<lparr>broadcastWaitStart := bw\<rparr>) = pc s" "pc (s\<lparr>forEachInit := fi\<rparr>) = pc s"
  "pc (s\<lparr>forEachCheck := fc\<rparr>) = pc s"
  by simp_all

lemma ext_if:
  assumes R: "recOk rec" and I: "pcInv st"
    and D: "decomposeIf rec block bid cont st = Some (e, st2)"
  shows "ext st st2"
proof (cases "truthy (inputOf block ''SUBSTACK'')")
  case T1: True
  show ?thesis using D I  T1 unfolding decomposeIf_def
    apply (clarsimp simp: bind_eq_Some_conv split: prod.splits option.splits inputval.splits if_splits)
    apply (((rule T_end,
         ((rule T_steps | (rule T_alloc, assumption)
           | (rule T_rec, assumption, rule R) | (rule T_drawUid, assumption)
           | (rule T_newLiteral, assumption)
           | (rule T_start, assumption))+)); simp)+)?
    done
next
  case T1: False
  show ?thesis using D I  T1 unfolding decomposeIf_def
    apply (clarsimp simp: bind_eq_Some_conv split: prod.splits option.splits inputval.splits if_splits)
    apply (((rule T_end,
         ((rule T_steps | (rule T_alloc, assumption)
           | (rule T_rec, assumption, rule R) | (rule T_drawUid, assumption)
           | (rule T_newLiteral, assumption)
           | (rule T_start, assumption))+)); simp)+)?
    done
qed

lemma ext_ifElse:
  assumes R: "recOk rec" and I: "pcInv st"
    and D: "decomposeIfElse rec block bid cont st = Some (e, st2)"
  shows "ext st st2"
proof (cases "truthy (inputOf block ''SUBSTACK'')")
  case T2: True
  show ?thesis
  proof (cases "truthy (inputOf block ''SUBSTACK2'')")
    case T1: True
    show ?thesis using D I  T2 T1 unfolding decomposeIfElse_def
    apply (clarsimp simp: bind_eq_Some_conv split: prod.splits option.splits inputval.splits if_splits)
    apply (((rule T_end,
         ((rule T_steps | (rule T_alloc, assumption)
           | (rule T_rec, assumption, rule R) | (rule T_drawUid, assumption)
           | (rule T_newLiteral, assumption)
           | (rule T_start, assumption))+)); simp)+)?
    done
  next
    case T1: False
    show ?thesis using D I  T2 T1 unfolding decomposeIfElse_def
    apply (clarsimp simp: bind_eq_Some_conv split: prod.splits option.splits inputval.splits if_splits)
    apply (((rule T_end,
         ((rule T_steps | (rule T_alloc, assumption)
           | (rule T_rec, assumption, rule R) | (rule T_drawUid, assumption)
           | (rule T_newLiteral, assumption)
           | (rule T_start, assumption))+)); simp)+)?
    done
  qed
next
  case T2: False
  show ?thesis
  proof (cases "truthy (inputOf block ''SUBSTACK2'')")
    case T1: True
    show ?thesis using D I  T2 T1 unfolding decomposeIfElse_def
    apply (clarsimp simp: bind_eq_Some_conv split: prod.splits option.splits inputval.splits if_splits)
    apply (((rule T_end,
         ((rule T_steps | (rule T_alloc, assumption)
           | (rule T_rec, assumption, rule R) | (rule T_drawUid, assumption)
           | (rule T_newLiteral, assumption)
           | (rule T_start, assumption))+)); simp)+)?
    done
  next
    case T1: False
    show ?thesis using D I  T2 T1 unfolding decomposeIfElse_def
    apply (clarsimp simp: bind_eq_Some_conv split: prod.splits option.splits inputval.splits if_splits)
    apply (((rule T_end,
         ((rule T_steps | (rule T_alloc, assumption)
           | (rule T_rec, assumption, rule R) | (rule T_drawUid, assumption)
           | (rule T_newLiteral, assumption)
           | (rule T_start, assumption))+)); simp)+)?
    done
  qed
qed

lemma ext_forever:
  assumes R: "recOk rec" and I: "pcInv st"
    and D: "decomposeForever rec block bid cont st = Some (e, st2)"
  shows "ext st st2"
proof (cases "truthy (inputOf block ''SUBSTACK'')")
  case T1: True
  show ?thesis using D I  T1 unfolding decomposeForever_def
    apply (clarsimp simp: bind_eq_Some_conv split: prod.splits option.splits inputval.splits if_splits)
    apply (((rule T_end,
         ((rule T_steps | (rule T_alloc, assumption)
           | (rule T_rec, assumption, rule R) | (rule T_drawUid, assumption)
           | (rule T_newLiteral, assumption)
           | (rule T_start, assumption))+)); simp)+)?
    done
next
  case T1: False
  show ?thesis using D I  T1 unfolding decomposeForever_def
    apply (clarsimp simp: bind_eq_Some_conv split: prod.splits option.splits inputval.splits if_splits)
    apply (((rule T_end,
         ((rule T_steps | (rule T_alloc, assumption)
           | (rule T_rec, assumption, rule R) | (rule T_drawUid, assumption)
           | (rule T_newLiteral, assumption)
           | (rule T_start, assumption))+)); simp)+)?
    done
qed

lemma ext_repeat:
  assumes R: "recOk rec" and I: "pcInv st"
    and D: "decomposeRepeat rec block bid cont st = Some (e, st2)"
  shows "ext st st2"
proof (cases "truthy (inputOf block ''SUBSTACK'')")
  case T1: True
  show ?thesis using D I  T1 unfolding decomposeRepeat_def
    apply (clarsimp simp: bind_eq_Some_conv split: prod.splits option.splits inputval.splits if_splits)
    apply (((rule T_end,
         ((rule T_steps | (rule T_alloc, assumption)
           | (rule T_rec, assumption, rule R) | (rule T_drawUid, assumption)
           | (rule T_newLiteral, assumption)
           | (rule T_start, assumption))+)); simp)+)?
    done
next
  case T1: False
  show ?thesis using D I  T1 unfolding decomposeRepeat_def
    apply (clarsimp simp: bind_eq_Some_conv split: prod.splits option.splits inputval.splits if_splits)
    apply (((rule T_end,
         ((rule T_steps | (rule T_alloc, assumption)
           | (rule T_rec, assumption, rule R) | (rule T_drawUid, assumption)
           | (rule T_newLiteral, assumption)
           | (rule T_start, assumption))+)); simp)+)?
    done
qed

lemma ext_forEach:
  assumes R: "recOk rec" and I: "pcInv st"
    and D: "decomposeForEach rec block bid cont st = Some (e, st2)"
  shows "ext st st2"
proof (cases "truthy (inputOf block ''SUBSTACK'')")
  case T1: True
  show ?thesis using D I  T1 unfolding decomposeForEach_def
    apply (clarsimp simp: bind_eq_Some_conv split: prod.splits option.splits inputval.splits if_splits)
    apply (((rule T_end,
         ((rule T_steps | (rule T_alloc, assumption)
           | (rule T_rec, assumption, rule R) | (rule T_drawUid, assumption)
           | (rule T_newLiteral, assumption)
           | (rule T_start, assumption))+)); simp)+)?
    done
next
  case T1: False
  show ?thesis using D I  T1 unfolding decomposeForEach_def
    apply (clarsimp simp: bind_eq_Some_conv split: prod.splits option.splits inputval.splits if_splits)
    apply (((rule T_end,
         ((rule T_steps | (rule T_alloc, assumption)
           | (rule T_rec, assumption, rule R) | (rule T_drawUid, assumption)
           | (rule T_newLiteral, assumption)
           | (rule T_start, assumption))+)); simp)+)?
    done
qed

lemma ext_repeatUntilWhile:
  assumes R: "recOk rec" and I: "pcInv st"
    and D: "decomposeRepeatUntilWhile rec block bid cont st = Some (e, st2)"
  shows "ext st st2"
proof (cases "truthy (inputOf block ''SUBSTACK'')")
  case T2: True
  show ?thesis
  proof (cases "opcode block = ''control_repeat_until''")
    case T1: True
    show ?thesis using D I  T2 T1 unfolding decomposeRepeatUntilWhile_def
    apply (clarsimp simp: bind_eq_Some_conv split: prod.splits option.splits inputval.splits if_splits)
    apply (((rule T_end,
         ((rule T_steps | (rule T_alloc, assumption)
           | (rule T_rec, assumption, rule R) | (rule T_drawUid, assumption)
           | (rule T_newLiteral, assumption)
           | (rule T_start, assumption))+)); simp)+)?
    done
  next
    case T1: False
    show ?thesis using D I  T2 T1 unfolding decomposeRepeatUntilWhile_def
    apply (clarsimp simp: bind_eq_Some_conv split: prod.splits option.splits inputval.splits if_splits)
    apply (((rule T_end,
         ((rule T_steps | (rule T_alloc, assumption)
           | (rule T_rec, assumption, rule R) | (rule T_drawUid, assumption)
           | (rule T_newLiteral, assumption)
           | (rule T_start, assumption))+)); simp)+)?
    done
  qed
next
  case T2: False
  show ?thesis
  proof (cases "opcode block = ''control_repeat_until''")
    case T1: True
    show ?thesis using D I  T2 T1 unfolding decomposeRepeatUntilWhile_def
    apply (clarsimp simp: bind_eq_Some_conv split: prod.splits option.splits inputval.splits if_splits)
    apply (((rule T_end,
         ((rule T_steps | (rule T_alloc, assumption)
           | (rule T_rec, assumption, rule R) | (rule T_drawUid, assumption)
           | (rule T_newLiteral, assumption)
           | (rule T_start, assumption))+)); simp)+)?
    done
  next
    case T1: False
    show ?thesis using D I  T2 T1 unfolding decomposeRepeatUntilWhile_def
    apply (clarsimp simp: bind_eq_Some_conv split: prod.splits option.splits inputval.splits if_splits)
    apply (((rule T_end,
         ((rule T_steps | (rule T_alloc, assumption)
           | (rule T_rec, assumption, rule R) | (rule T_drawUid, assumption)
           | (rule T_newLiteral, assumption)
           | (rule T_start, assumption))+)); simp)+)?
    done
  qed
qed

lemma ext_allAtOnce:
  assumes R: "recOk rec" and I: "pcInv st"
    and D: "decomposeAllAtOnce rec block bid cont st = Some (e, st2)"
  shows "ext st st2"
proof (cases "truthy (inputOf block ''SUBSTACK'')")
  case T1: True
  show ?thesis using D I  T1 unfolding decomposeAllAtOnce_def
    apply (clarsimp simp: bind_eq_Some_conv split: prod.splits option.splits inputval.splits if_splits)
    apply (((rule T_end,
         ((rule T_steps | (rule T_alloc, assumption)
           | (rule T_rec, assumption, rule R) | (rule T_drawUid, assumption)
           | (rule T_newLiteral, assumption)
           | (rule T_start, assumption))+)); simp)+)?
    done
next
  case T1: False
  show ?thesis using D I  T1 unfolding decomposeAllAtOnce_def
    apply (clarsimp simp: bind_eq_Some_conv split: prod.splits option.splits inputval.splits if_splits)
    apply (((rule T_end,
         ((rule T_steps | (rule T_alloc, assumption)
           | (rule T_rec, assumption, rule R) | (rule T_drawUid, assumption)
           | (rule T_newLiteral, assumption)
           | (rule T_start, assumption))+)); simp)+)?
    done
qed

lemma ext_wait:
  assumes R: "recOk rec" and I: "pcInv st"
    and D: "decomposeWait block bid cont st = Some (e, st2)"
  shows "ext st st2"
  using D I unfolding decomposeWait_def
    apply (clarsimp simp: bind_eq_Some_conv split: prod.splits option.splits inputval.splits if_splits)
    apply (((rule T_end,
         ((rule T_steps | (rule T_alloc, assumption)
           | (rule T_rec, assumption, rule R) | (rule T_drawUid, assumption)
           | (rule T_newLiteral, assumption)
           | (rule T_start, assumption))+)); simp)+)?
    done

lemma ext_waitUntil:
  assumes R: "recOk rec" and I: "pcInv st"
    and D: "decomposeWaitUntil block bid cont st = Some (e, st2)"
  shows "ext st st2"
  using D I unfolding decomposeWaitUntil_def
    apply (clarsimp simp: bind_eq_Some_conv split: prod.splits option.splits inputval.splits if_splits)
    apply (((rule T_end,
         ((rule T_steps | (rule T_alloc, assumption)
           | (rule T_rec, assumption, rule R) | (rule T_drawUid, assumption)
           | (rule T_newLiteral, assumption)
           | (rule T_start, assumption))+)); simp)+)?
    done

lemma ext_broadcastAndWait:
  assumes R: "recOk rec" and I: "pcInv st"
    and D: "decomposeBroadcastAndWait block bid cont st = Some (e, st2)"
  shows "ext st st2"
  using D I unfolding decomposeBroadcastAndWait_def
    apply (clarsimp simp: bind_eq_Some_conv split: prod.splits option.splits inputval.splits if_splits)
    apply (((rule T_end,
         ((rule T_steps | (rule T_alloc, assumption)
           | (rule T_rec, assumption, rule R) | (rule T_drawUid, assumption)
           | (rule T_newLiteral, assumption)
           | (rule T_start, assumption))+)); simp)+)?
    done

lemma ext_stop:
  assumes R: "recOk rec" and I: "pcInv st"
    and D: "decomposeStop block bid cont st = Some (e, st2)"
  shows "ext st st2"
  using D I unfolding decomposeStop_def
    apply (clarsimp simp: bind_eq_Some_conv split: prod.splits option.splits inputval.splits if_splits)
    apply (((rule T_end,
         ((rule T_steps | (rule T_alloc, assumption)
           | (rule T_rec, assumption, rule R) | (rule T_drawUid, assumption)
           | (rule T_newLiteral, assumption)
           | (rule T_start, assumption))+)); simp)+)?
    done

lemma ext_default:
  assumes R: "recOk rec" and I: "pcInv st"
    and D: "decomposeDefault block bid cont st = Some (e, st2)"
  shows "ext st st2"
  using D I unfolding decomposeDefault_def
    apply (clarsimp simp: bind_eq_Some_conv split: prod.splits option.splits inputval.splits if_splits)
    apply (((rule T_end,
         ((rule T_steps | (rule T_alloc, assumption)
           | (rule T_rec, assumption, rule R) | (rule T_drawUid, assumption)
           | (rule T_newLiteral, assumption)
           | (rule T_start, assumption))+)); simp)+)?
    done

lemma ext_refl: "pcInv st \<Longrightarrow> ext st st"
  by (rule T_end, rule T_start)

lemma ext_trans: "ext a b \<Longrightarrow> ext b c \<Longrightarrow> ext a c"
proof -
  assume ab: "ext a b" and bc: "ext b c"
  from ab have "T a [] b" by (simp add: T_def)
  with bc have "T a [] c" by (rule T_ext)
  then show ?thesis by (rule T_end)
qed

lemma ext_pcInv: "ext a b \<Longrightarrow> pcInv b"
  by (simp add: ext_def)

lemma ext_control:
  assumes R: "recOk rec" and I: "pcInv st"
    and D: "decomposeControlBlockWith rec block bid cont st = Some (e, st2)"
  shows "ext st st2"
  using D unfolding decomposeControlBlockWith_def
  apply (simp split: if_splits)
  apply (erule ext_if[OF R I] ext_ifElse[OF R I] ext_forever[OF R I] ext_repeat[OF R I]
      ext_forEach[OF R I] ext_repeatUntilWhile[OF R I] ext_allAtOnce[OF R I]
      ext_wait[OF R I] ext_waitUntil[OF R I] ext_broadcastAndWait[OF R I]
      ext_stop[OF R I] ext_default[OF R I])+
  done

lemma ext_linear:
  assumes I: "pcInv st" and A: "allocPc st = Some (p, st1)"
  shows "ext st (pushState (plainState p ids nxt False) (onBlocks f st1))"
  apply (rule T_end)
  apply (rule T_push)
   apply (rule T_onBlocks)
   apply (rule T_alloc[OF A])
   apply (rule T_start[OF I])
  apply simp
  done

lemma ext_segments:
  assumes C: "\<And>block bid cont st e st2.
      pcInv st \<Longrightarrow> dcb block bid cont st = Some (e, st2) \<Longrightarrow> ext st st2"
  shows "pcInv st \<Longrightarrow> decomposeSegmentsWith dcb segs nxt st = Some (e, st2) \<Longrightarrow> ext st st2"
proof (induction segs arbitrary: nxt st)
  case Nil
  then show ?case by (simp add: ext_refl)
next
  case (Cons s segs)
  show ?case
  proof (cases s)
    case (Linear ids)
    with Cons.prems(2) obtain p st1 where A: "allocPc st = Some (p, st1)"
      and r: "decomposeSegmentsWith dcb segs p
                (pushState (plainState p ids nxt False) (onBlocks (isolateChain ids) st1))
              = Some (e, st2)"
      by (auto simp: bind_eq_Some_conv)
    have x: "ext st (pushState (plainState p ids nxt False) (onBlocks (isolateChain ids) st1))"
      using Cons.prems(1) A by (rule ext_linear)
    from Cons.IH[OF ext_pcInv[OF x] r] x show ?thesis by (blast intro: ext_trans)
  next
    case (Control bid)
    with Cons.prems(2) obtain block c st1 where
      b: "dcb block bid nxt st = Some (c, st1)"
      and r: "decomposeSegmentsWith dcb segs c st1 = Some (e, st2)"
      by (auto simp: bind_eq_Some_conv)
    have x: "ext st st1" using Cons.prems(1) b by (rule C)
    from Cons.IH[OF ext_pcInv[OF x] r] x show ?thesis by (blast intro: ext_trans)
  qed
qed

lemma recOk_decomposeChain: "recOk (decomposeChain n)"
proof (induction n)
  case 0
  show ?case by (simp add: recOk_def)
next
  case (Suc n)
  have C: "\<And>block bid cont st e st2.
      pcInv st \<Longrightarrow> decomposeControlBlockWith (decomposeChain n) block bid cont st = Some (e, st2)
      \<Longrightarrow> ext st st2"
    using Suc by (rule ext_control)
  show ?case
    unfolding recOk_def decomposeChain.simps decomposeChainWith_def
    by (auto split: if_splits intro: ext_refl ext_segments[OF C])
qed

lemma randomInt_gen: "genKept g (snd (randomInt lo hi g))"
  by (simp add: randomInt_def randomNumber_def mathRandom_def genKept_def split: prod.splits)

lemma randomBool_gen: "genKept g (snd (randomBool g))"
  by (simp add: randomBool_def mathRandom_def genKept_def split: prod.splits)

lemma advance_gen: "genKept g (advance nr nu g)"
  by (simp add: advance_def genKept_def)

lemma dead_result:
  "EXIT_PC \<notin> usedPcs st \<Longrightarrow> generateDeadStatesFrom dc cfg k st = Some (ds, st2) \<Longrightarrow>
   distinct (map pc ds) \<and> pc ` set ds \<subseteq> usedPcs st2 - usedPcs st \<and> usedPcs st \<subseteq> usedPcs st2
   \<and> EXIT_PC \<notin> usedPcs st2 \<and> dStates st2 = dStates st \<and> genKept (dgen st) (dgen st2)
   \<and> length ds = k \<and> (\<forall>s \<in> set ds. \<exists>p b n. s = plainState p b n True)"
proof (induction k arbitrary: st ds)
  case 0
  then show ?case by simp
next
  case (Suc k)
  from Suc.prems(2) obtain p st1 where A: "allocPc st = Some (p, st1)"
    and c1: "(case randomInt (minChainLength cfg) (maxChainLength cfg) (dgen st1) of
          (chainLen, g1) \<Rightarrow>
        case (if dynamicDeadCode cfg then randomBool g1 else (False, g1)) of
          (dynamic, g2) \<Rightarrow>
        case dc dynamic chainLen (dBlocks st1) g2 of
          (bodyIds, bm, nr, nu) \<Rightarrow>
            do {
              (nextPc', g4) \<leftarrow> deadNextPc (advance nr nu g2);
              (rest, st2) \<leftarrow>
                generateDeadStatesFrom dc cfg k
                  (st1\<lparr>dBlocks := linkChain bodyIds bm, dgen := g4\<rparr>);
              Some (plainState p bodyIds nextPc' True # rest, st2)
            }) = Some (ds, st2)"
    by (auto simp: bind_eq_Some_conv)
  obtain chainLen g1 where
    ri: "randomInt (minChainLength cfg) (maxChainLength cfg) (dgen st1) = (chainLen, g1)"
    by (cases "randomInt (minChainLength cfg) (maxChainLength cfg) (dgen st1)") auto
  obtain dynamic g2 where
    rb: "(if dynamicDeadCode cfg then randomBool g1 else (False, g1)) = (dynamic, g2)"
    by (cases "if dynamicDeadCode cfg then randomBool g1 else (False, g1)") auto
  obtain bodyIds bm nr nu where dcq: "dc dynamic chainLen (dBlocks st1) g2 = (bodyIds, bm, nr, nu)"
    by (cases "dc dynamic chainLen (dBlocks st1) g2") auto
  from c1 obtain nextPc' g4 rest where
    dn: "deadNextPc (advance nr nu g2) = Some (nextPc', g4)"
    and r: "generateDeadStatesFrom dc cfg k (st1\<lparr>dBlocks := linkChain bodyIds bm, dgen := g4\<rparr>)
              = Some (rest, st2)"
    and ds: "ds = plainState p bodyIds nextPc' True # rest"
    by (auto simp: ri rb dcq bind_eq_Some_conv)
  note a = allocPc_result[OF A]
  let ?st = "st1\<lparr>dBlocks := linkChain bodyIds bm, dgen := g4\<rparr>"
  have e: "EXIT_PC \<notin> usedPcs ?st" using a Suc.prems(1) by auto
  note ih = Suc.IH[OF e r]
  have k1: "genKept (dgen st1) g1" using randomInt_gen[of "dgen st1"] ri by (metis snd_conv)
  have k2: "genKept g1 g2" using rb randomBool_gen[of g1]
    by (cases "dynamicDeadCode cfg") auto
  have "genKept (advance nr nu g2) g4" using deadNextPc_result[OF dn] by simp
  with advance_gen[of g2 nr nu] have k3: "genKept g2 g4" by (rule genKept_trans)
  have k: "genKept (dgen st) g4" using a(7) k1 k2 k3 by (blast intro: genKept_trans)
  have g: "genKept (dgen st) (dgen st2)" using ih k by (auto intro: genKept_trans)
  show ?case using ih a ds g by (auto simp: plainState_def)
qed

lemma swapAt_map: "i < length a \<Longrightarrow> j < length a \<Longrightarrow> map f (swapAt i j a) = swapAt i j (map f a)"
  by (simp add: swapAt_def map_update)

lemma swapAt_props:
  "i < length a \<Longrightarrow> j < length a \<Longrightarrow>
   set (swapAt i j a) = set a \<and> distinct (swapAt i j a) = distinct a
   \<and> length (swapAt i j a) = length a"
  by (simp add: swapAt_def set_swap distinct_swap)

lemma shuffleFrom_props:
  "(\<forall>n. 0 \<le> rndSrc g n \<and> rndSrc g n < 1) \<Longrightarrow> i < length a \<Longrightarrow>
   set (map f (fst (shuffleFrom i a g))) = set (map f a)
   \<and> distinct (map f (fst (shuffleFrom i a g))) = distinct (map f a)"
proof (induction i arbitrary: a g)
  case 0
  then show ?case by simp
next
  case (Suc i)
  let ?r = "rndSrc g (rndPos g)"
  let ?j = "nat \<lfloor>?r * real (Suc i + 1)\<rfloor>"
  let ?g = "g\<lparr>rndPos := Suc (rndPos g)\<rparr>"
  from Suc.prems(1) have r: "0 \<le> ?r" "?r < 1" by auto
  have "?r * real (Suc i + 1) < real (Suc i + 1)" using r by simp
  then have "\<lfloor>?r * real (Suc i + 1)\<rfloor> < int (Suc i + 1)" by (simp add: floor_less_iff)
  then have j: "?j < Suc i + 1" by linarith
  with Suc.prems(2) have jl: "?j < length a" by simp
  have g: "\<forall>n. 0 \<le> rndSrc ?g n \<and> rndSrc ?g n < 1" using Suc.prems(1) by simp
  have l: "i < length (swapAt (Suc i) ?j a)" using Suc.prems(2) by (simp add: swapAt_def)
  note ih = Suc.IH[OF g l]
  have m: "map f (swapAt (Suc i) ?j a) = swapAt (Suc i) ?j (map f a)"
    using Suc.prems(2) jl by (rule swapAt_map)
  have p: "set (swapAt (Suc i) ?j (map f a)) = set (map f a)"
      "distinct (swapAt (Suc i) ?j (map f a)) = distinct (map f a)"
    using swapAt_props[of "Suc i" "map f a" ?j] Suc.prems(2) jl by simp_all
  have sf: "shuffleFrom (Suc i) a g = shuffleFrom i (swapAt (Suc i) ?j a) ?g"
    by (simp add: mathRandom_def)
  show ?case unfolding sf ih[THEN conjunct1] ih[THEN conjunct2] m p by simp
qed

lemma shuffle_props:
  assumes "\<forall>n. 0 \<le> rndSrc g n \<and> rndSrc g n < 1"
  shows "set (map f (fst (shuffle a g))) = set (map f a)
   \<and> distinct (map f (fst (shuffle a g))) = distinct (map f a)"
proof (cases "a = []")
  case True
  then show ?thesis by (simp add: shuffle_def)
next
  case False
  then have "length a - 1 < length a" by (cases a) simp_all
  with assms show ?thesis unfolding shuffle_def by (rule shuffleFrom_props)
qed

lemma pcInv_initial: "pcInv (initialDstate bm g)"
  by (simp add: pcInv_def pcsOf_def initialDstate_def)

text \<open>
  Claim C5. A program counter that \<open>allocPc\<close> returns is not the exit value 0 and was not
  allocated before in this script, and it is recorded as used. Hence, whenever
  \<open>decomposeToCFG\<close> returns and the random numbers lie in \<open>[0, 1)\<close>, the states of the result,
  real and decoy, have pairwise different program counters, none of them 0.
\<close>

theorem allocated_pcs_nonzero_distinct:
  "(allocPc st = Some (p, st') \<longrightarrow>
      p \<noteq> EXIT_PC \<and> p \<notin> usedPcs st \<and> usedPcs st' = insert p (usedPcs st))
   \<and> (decomposeToCFG fuel deadCode bm chainIds config g = Some (res, bm', g')
        \<longrightarrow> (\<forall>n. 0 \<le> rndSrc g n \<and> rndSrc g n < 1)
        \<longrightarrow> distinct (map pc (rStates res)) \<and> EXIT_PC \<notin> pc ` set (rStates res))"
proof (intro conjI impI)
  assume a: "allocPc st = Some (p, st')"
  show "p \<noteq> EXIT_PC" "p \<notin> usedPcs st" "usedPcs st' = insert p (usedPcs st)"
    using allocPc_result[OF a] by simp_all
next
  assume d: "decomposeToCFG fuel deadCode bm chainIds config g = Some (res, bm', g')"
    and r: "\<forall>n. 0 \<le> rndSrc g n \<and> rndSrc g n < 1"
  from d obtain entryPc st1 deadStates st2 where
    d1: "decomposeChain fuel chainIds EXIT_PC (initialDstate bm g) = Some (entryPc, st1)"
    and d2: "generateDeadStates deadCode config st1 = Some (deadStates, st2)"
    and d3: "rStates res = fst (shuffle (dStates st1 @ deadStates) (dgen st2))"
    by (auto simp: decomposeToCFG_def bind_eq_Some_conv case_prod_unfold)
  have x: "ext (initialDstate bm g) st1"
    using recOk_decomposeChain[of fuel] pcInv_initial d1 by (auto simp: recOk_def)
  then have i1: "distinct (map pc (dStates st1))" "pc ` set (dStates st1) \<subseteq> usedPcs st1"
    "EXIT_PC \<notin> usedPcs st1" and k1: "genKept g (dgen st1)"
    by (simp_all add: ext_def pcInv_def pcsOf_def initialDstate_def)
  from d2 have "generateDeadStatesFrom deadCode config (deadStatesPerScript config) st1
      = Some (deadStates, st2)" by (simp add: generateDeadStates_def)
  note dr = dead_result[OF i1(3) this]
  have dd: "distinct (map pc (dStates st1 @ deadStates))" using i1 dr by auto
  have ee: "EXIT_PC \<notin> set (map pc (dStates st1 @ deadStates))" using i1 dr by auto
  have "genKept g (dgen st2)" using k1 dr by (blast intro: genKept_trans)
  then have "rndSrc (dgen st2) = rndSrc g" by (simp add: genKept_def)
  with r have r2: "\<forall>n. 0 \<le> rndSrc (dgen st2) n \<and> rndSrc (dgen st2) n < 1" by simp
  note sp = shuffle_props[OF r2, of pc "dStates st1 @ deadStates"]
  show "distinct (map pc (rStates res))" unfolding d3 using sp dd by simp
  show "EXIT_PC \<notin> pc ` set (rStates res)" unfolding d3 using sp ee by simp
qed

lemma exDraws_range: "\<forall>n. 0 \<le> rndSrc exDraws n \<and> rndSrc exDraws n < 1"
  by (simp add: exDraws_def)

lemma ex_decompose:
  "map_option (\<lambda>(r, b, g). map pc (rStates r))
     (decomposeToCFG 1 exDeadCode exLinearMap [''a''] exConfig exDraws)
   = Some [- 5000000000000, - 3333333333333]"
  by code_simp

lemma ex_alloc:
  "map_option fst (allocPc (initialDstate exLinearMap exDraws)) = Some (- 3333333333333)"
  by code_simp

theorem allocated_pcs_nonzero_distinct_witness:
  "\<exists>p st' res bm' g'.
     allocPc (initialDstate exLinearMap exDraws) = Some (p, st')
     \<and> p = - 3333333333333 \<and> p \<noteq> EXIT_PC 
     \<and> usedPcs st' = {p}
     \<and> decomposeToCFG 1 exDeadCode exLinearMap [''a''] exConfig exDraws = Some (res, bm', g')
     \<and> map pc (rStates res) = [- 5000000000000, - 3333333333333]
     \<and> distinct (map pc (rStates res)) \<and> EXIT_PC \<notin> pc ` set (rStates res)"
proof -
  from ex_alloc obtain st' where
    a: "allocPc (initialDstate exLinearMap exDraws) = Some (- 3333333333333, st')"
    by (cases "allocPc (initialDstate exLinearMap exDraws)") auto
  from ex_decompose obtain res bm' g' where
    d: "decomposeToCFG 1 exDeadCode exLinearMap [''a''] exConfig exDraws = Some (res, bm', g')"
    and m: "map pc (rStates res) = [- 5000000000000, - 3333333333333]"
    by (cases "decomposeToCFG 1 exDeadCode exLinearMap [''a''] exConfig exDraws") auto
  note t = allocated_pcs_nonzero_distinct[of "initialDstate exLinearMap exDraws"
      "- 3333333333333" st' 1 exDeadCode exLinearMap "[''a'']" exConfig exDraws res bm' g']
  from t a have 1: "- 3333333333333 \<noteq> EXIT_PC" "usedPcs st' = {- 3333333333333}"
    by (simp_all add: initialDstate_def)
  from t d exDraws_range have 2: "distinct (map pc (rStates res))"
      "EXIT_PC \<notin> pc ` set (rStates res)"
    by simp_all
  show ?thesis
    apply (insert a d m 1 2)
    apply (rule exI[of _ "- 3333333333333"], rule exI[of _ st'], rule exI[of _ res],
        rule exI[of _ bm'], rule exI[of _ g'])
    apply simp
    done
qed
subsection \<open>Conditionals\<close>

lemma getFullBlock_update:
  "getFullBlock (AList.update k v bm) j =
     (if j = k then (case v of FullBlock b \<Rightarrow> Some b | LiteralPrim l \<Rightarrow> None) else getFullBlock bm j)"
  by (simp add: getFullBlock_def update_conv')

lemma getFullBlock_setParent:
  "getFullBlock (setParent i p bm) j =
     (if j = i then map_option (\<lambda>b. b\<lparr>parentId := p\<rparr>) (getFullBlock bm j) else getFullBlock bm j)"
  by (cases "getFullBlock bm i") (simp_all add: setParent_def getFullBlock_update)

lemma getFullBlock_setNext:
  "getFullBlock (setNext i n bm) j =
     (if j = i then map_option (\<lambda>b. b\<lparr>nextId := n\<rparr>) (getFullBlock bm j) else getFullBlock bm j)"
  by (cases "getFullBlock bm i") (simp_all add: setNext_def getFullBlock_update)

lemma singleStatement_setParent [simp]:
  "singleStatement (setParent i p bm) a = singleStatement bm a"
  by (auto simp: singleStatement_def getFullBlock_setParent split: option.splits)

lemma singleStatement_setNext_None [simp]:
  "singleStatement bm a \<Longrightarrow> singleStatement (setNext i None bm) a"
  by (auto simp: singleStatement_def getFullBlock_setNext split: option.splits)

lemma singleStatement_isolate:
  "singleStatement bm a \<Longrightarrow> singleStatement (isolateChain [c] bm) a"
  by (simp add: isolateChain_def)

lemma single_walk: "singleStatement bm a \<Longrightarrow> walkChain bm a = [a]"
  by (cases "getFullBlock bm a") (simp_all add: singleStatement_def walkChain_def)

lemma single_segments: "singleStatement bm a \<Longrightarrow> segmentsFrom bm [a] [] = [Linear [a]]"
  by (cases "getFullBlock bm a") (simp_all add: singleStatement_def)

lemma single_chain:
  assumes s: "singleStatement (dBlocks st) a" and a: "allocPc st = Some (p, st1)"
  shows "decomposeChain (Suc n) (walkChain (dBlocks st) a) cont st
         = Some (p, pushState (plainState p [a] cont False) (onBlocks (isolateChain [a]) st1))"
  using a by (simp add: single_walk[OF s] single_segments[OF s] decomposeChainWith_def
      del: segmentsFrom.simps)

lemma allocPc_eq:
  "allocLoop (usedPcs st) (dgen st) = Some (p, g1) \<Longrightarrow>
   allocPc st = Some (p, st\<lparr>usedPcs := insert p (usedPcs st), dgen := g1\<rparr>)"
  by (simp add: allocPc_def)

lemma if_else_general:
  assumes "decomposeIfElse rec block bid cont st = Some (e, st2)"
  shows "\<exists>st1 tPc stT fPc stF.
      allocPc st = Some (e, st1)
      \<and> (if truthy (inputOf block ''SUBSTACK'')
         then rec (chainOfInput (dBlocks st1) (inputOf block ''SUBSTACK'')) cont st1 = Some (tPc, stT)
         else tPc = cont \<and> stT = st1)
      \<and> (if truthy (inputOf block ''SUBSTACK2'')
         then rec (chainOfInput (dBlocks stT) (inputOf block ''SUBSTACK2'')) cont stT = Some (fPc, stF)
         else fPc = cont \<and> stF = stT)
      \<and> dStates st2 = dStates stF @ [branchState e cont (inputOf block ''CONDITION'') tPc fPc]"
  using assms unfolding decomposeIfElse_def branchState_def
  by (cases "truthy (inputOf block ''SUBSTACK'')"; cases "truthy (inputOf block ''SUBSTACK2'')")
     (auto simp: bind_eq_Some_conv)

lemma if_else_scenario:
  assumes sc: "ifElseOfSingles bm ifId cond a b"
    and a1: "allocLoop {} g = Some (e, g1)"
    and a2: "allocLoop {e} g1 = Some (pT, g2)"
    and a3: "allocLoop {pT, e} g2 = Some (pF, g3)"
  shows "\<exists>st. decomposeChain (Suc (Suc n)) [ifId] EXIT_PC (initialDstate bm g) = Some (e, st)
      \<and> dStates st = [plainState pT [a] EXIT_PC False, plainState pF [b] EXIT_PC False,
                      branchState e EXIT_PC cond pT pF]
      \<and> usedPcs st = {pF, pT, e} \<and> dRedirects st = Map.empty"
proof -
  from sc obtain blk where blk: "getFullBlock bm ifId = Some blk"
    "opcode blk = ''control_if_else''" "inputOf blk ''CONDITION'' = cond"
    "inputOf blk ''SUBSTACK'' = RefId a" "inputOf blk ''SUBSTACK2'' = RefId b"
    and sa: "singleStatement bm a" and sb: "singleStatement bm b"
    by (auto simp: ifElseOfSingles_def split: option.splits)
  have ne: "a \<noteq> []" "b \<noteq> []" using sa sb by (simp_all add: singleStatement_def)
  let ?s0 = "initialDstate bm g"
  let ?s1 = "?s0\<lparr>usedPcs := {e}, dgen := g1\<rparr>"
  have A1: "allocPc ?s0 = Some (e, ?s1)"
    using allocPc_eq[of ?s0 e g1] a1 by (simp add: initialDstate_def)
  let ?s2 = "?s1\<lparr>usedPcs := {pT, e}, dgen := g2\<rparr>"
  have A2: "allocPc ?s1 = Some (pT, ?s2)"
    using allocPc_eq[of ?s1 pT g2] a2 by (simp add: initialDstate_def)
  let ?sT = "pushState (plainState pT [a] EXIT_PC False) (onBlocks (isolateChain [a]) ?s2)"
  have s1a: "singleStatement (dBlocks ?s1) a" using sa by (simp add: initialDstate_def)
  have T: "decomposeChain (Suc n) (walkChain (dBlocks ?s1) a) EXIT_PC ?s1 = Some (pT, ?sT)"
    using s1a A2 by (rule single_chain)
  let ?s3 = "?sT\<lparr>usedPcs := {pF, pT, e}, dgen := g3\<rparr>"
  have A3: "allocPc ?sT = Some (pF, ?s3)"
    using allocPc_eq[of ?sT pF g3] a3 by (simp add: initialDstate_def)
  let ?sF = "pushState (plainState pF [b] EXIT_PC False) (onBlocks (isolateChain [b]) ?s3)"
  have sTb: "singleStatement (dBlocks ?sT) b"
    using sb by (simp add: initialDstate_def singleStatement_isolate)
  have F: "decomposeChain (Suc n) (walkChain (dBlocks ?sT) b) EXIT_PC ?sT = Some (pF, ?sF)"
    using sTb A3 by (rule single_chain)
  have seg: "segmentsFrom bm [ifId] [] = [Control ifId]"
    using blk by (simp add: isControlOpcode_def C_BLOCK_OPCODES_def)
  have "decomposeIfElse (decomposeChain (Suc n)) blk ifId EXIT_PC ?s0
        = Some (e, onBlocks (deleteBlock ifId)
             (pushState (branchState e EXIT_PC cond pT pF) (onBlocks (clearParent cond) ?sF)))"
    unfolding decomposeIfElse_def branchState_def
    using A1 T F blk ne by (simp add: chainOfInput_def)
  then have "decomposeChain (Suc (Suc n)) [ifId] EXIT_PC ?s0
        = Some (e, onBlocks (deleteBlock ifId)
             (pushState (branchState e EXIT_PC cond pT pF) (onBlocks (clearParent cond) ?sF)))"
    using blk seg
    by (simp add: decomposeChainWith_def decomposeControlBlockWith_def initialDstate_def
        del: segmentsFrom.simps decomposeChain.simps(2))
       (simp add: decomposeChainWith_def decomposeControlBlockWith_def initialDstate_def
        del: segmentsFrom.simps)
  then show ?thesis by (simp add: initialDstate_def)
qed

lemma if_general:
  assumes "decomposeIf rec block bid cont st = Some (e, st2)"
  shows "\<exists>st1 tPc stT.
      allocPc st = Some (e, st1)
      \<and> (if truthy (inputOf block ''SUBSTACK'')
         then rec (chainOfInput (dBlocks st1) (inputOf block ''SUBSTACK'')) cont st1 = Some (tPc, stT)
         else tPc = cont \<and> stT = st1)
      \<and> dStates st2 = dStates stT @ [branchState e cont (inputOf block ''CONDITION'') tPc cont]"
  using assms unfolding decomposeIf_def branchState_def
  by (cases "truthy (inputOf block ''SUBSTACK'')") (auto simp: bind_eq_Some_conv)

lemma three_allocs:
  assumes a1: "allocLoop {} g = Some (e, g1)"
    and a2: "allocLoop {e} g1 = Some (pT, g2)"
    and a3: "allocLoop {pT, e} g2 = Some (pF, g3)"
  shows "distinct [e, pT, pF] \<and> EXIT_PC \<notin> {e, pT, pF}"
  using allocLoop_result[OF a1] allocLoop_result[OF a2] allocLoop_result[OF a3] by auto

text \<open>
  Claim C2. \<open>control_if_else\<close> pushes exactly one state of its own, a branch state, after
  the states of its substacks: its true and false program counters are what the
  decomposition of the first and of the second substack returned, and the continuation
  where the substack slot is empty. For a chain that is one if-else whose substacks are
  one statement each, with the exit value as continuation and the allocation loop
  returning three times, the decomposition returns three states: the two bodies, each
  with the exit value as next program counter, and the branch state pointing at them.
\<close>

theorem if_else_one_branch_state:
  "(decomposeIfElse rec block bid cont st = Some (e, st2) \<longrightarrow>
      (\<exists>st1 tPc stT fPc stF.
         allocPc st = Some (e, st1)
         \<and> (if truthy (inputOf block ''SUBSTACK'')
            then rec (chainOfInput (dBlocks st1) (inputOf block ''SUBSTACK'')) cont st1
                   = Some (tPc, stT)
            else tPc = cont \<and> stT = st1)
         \<and> (if truthy (inputOf block ''SUBSTACK2'')
            then rec (chainOfInput (dBlocks stT) (inputOf block ''SUBSTACK2'')) cont stT
                   = Some (fPc, stF)
            else fPc = cont \<and> stF = stT)
         \<and> dStates st2
             = dStates stF @ [branchState e cont (inputOf block ''CONDITION'') tPc fPc]))
   \<and> (ifElseOfSingles bm ifId cond a b \<and> allocLoop {} g = Some (p, g1)
        \<and> allocLoop {p} g1 = Some (pT, g2) \<and> allocLoop {pT, p} g2 = Some (pF, g3) \<longrightarrow>
      (\<exists>st'. decomposeChain (Suc (Suc n)) [ifId] EXIT_PC (initialDstate bm g) = Some (p, st')
         \<and> dStates st' = [plainState pT [a] EXIT_PC False, plainState pF [b] EXIT_PC False,
                          branchState p EXIT_PC cond pT pF]
         \<and> distinct [p, pT, pF] \<and> EXIT_PC \<notin> {p, pT, pF}))"
proof (intro conjI impI)
  assume "decomposeIfElse rec block bid cont st = Some (e, st2)"
  then show "\<exists>st1 tPc stT fPc stF.
         allocPc st = Some (e, st1)
         \<and> (if truthy (inputOf block ''SUBSTACK'')
            then rec (chainOfInput (dBlocks st1) (inputOf block ''SUBSTACK'')) cont st1
                   = Some (tPc, stT)
            else tPc = cont \<and> stT = st1)
         \<and> (if truthy (inputOf block ''SUBSTACK2'')
            then rec (chainOfInput (dBlocks stT) (inputOf block ''SUBSTACK2'')) cont stT
                   = Some (fPc, stF)
            else fPc = cont \<and> stF = stT)
         \<and> dStates st2
             = dStates stF @ [branchState e cont (inputOf block ''CONDITION'') tPc fPc]"
    by (rule if_else_general)
next
  assume h: "ifElseOfSingles bm ifId cond a b \<and> allocLoop {} g = Some (p, g1)
        \<and> allocLoop {p} g1 = Some (pT, g2) \<and> allocLoop {pT, p} g2 = Some (pF, g3)"
  then have sc: "ifElseOfSingles bm ifId cond a b" and a1: "allocLoop {} g = Some (p, g1)"
    and a2: "allocLoop {p} g1 = Some (pT, g2)" and a3: "allocLoop {pT, p} g2 = Some (pF, g3)"
    by simp_all
  from if_else_scenario[OF sc a1 a2 a3, of n] three_allocs[OF a1 a2 a3]
  show "\<exists>st'. decomposeChain (Suc (Suc n)) [ifId] EXIT_PC (initialDstate bm g) = Some (p, st')
         \<and> dStates st' = [plainState pT [a] EXIT_PC False, plainState pF [b] EXIT_PC False,
                          branchState p EXIT_PC cond pT pF]
         \<and> distinct [p, pT, pF] \<and> EXIT_PC \<notin> {p, pT, pF}"
    by blast
qed

lemma exDraws_alloc1:
  "allocLoop {} exDraws = Some (- 3333333333333, exDraws\<lparr>rndPos := 2\<rparr>)"
  by (simp add: allocLoop.simps randomHugeInt.simps mathRandom_def exDraws_def
      PC_MIN_def PC_MAX_def EXIT_PC_def)

lemma exDraws_alloc2:
  "allocLoop {- 3333333333333} (exDraws\<lparr>rndPos := 2\<rparr>)
     = Some (- 5000000000000, exDraws\<lparr>rndPos := 3\<rparr>)"
  by (simp add: allocLoop.simps randomHugeInt.simps mathRandom_def exDraws_def
      PC_MIN_def PC_MAX_def EXIT_PC_def)

lemma exDraws_alloc3:
  "allocLoop {- 5000000000000, - 3333333333333} (exDraws\<lparr>rndPos := 3\<rparr>)
     = Some (- 6000000000000, exDraws\<lparr>rndPos := 4\<rparr>)"
  by (simp add: allocLoop.simps randomHugeInt.simps mathRandom_def exDraws_def
      PC_MIN_def PC_MAX_def EXIT_PC_def)

lemma exIfElseMap_shape: "ifElseOfSingles exIfElseMap ''if1'' (RefId ''c'') ''a'' ''b''"
  by (simp add: ifElseOfSingles_def singleStatement_def exIfElseMap_def exIfElseBlock_def
      getFullBlock_def inputOf_def exSetBlock_def isControlOpcode_def C_BLOCK_OPCODES_def
      TERMINATOR_OPCODES_def)

lemma exIfElse_returns:
  "map_option fst (decomposeIfElse (decomposeChain 1) exIfElseBlock ''if1'' EXIT_PC
      (initialDstate exIfElseMap exDraws)) = Some (- 3333333333333)"
  by code_simp

theorem if_else_one_branch_state_witness:
  "(\<exists>st2 st1 tPc stT fPc stF.
      decomposeIfElse (decomposeChain 1) exIfElseBlock ''if1'' EXIT_PC
        (initialDstate exIfElseMap exDraws) = Some (- 3333333333333, st2)
      \<and> allocPc (initialDstate exIfElseMap exDraws) = Some (- 3333333333333, st1)
      \<and> decomposeChain 1 (chainOfInput (dBlocks st1) (RefId ''a'')) EXIT_PC st1 = Some (tPc, stT)
      \<and> decomposeChain 1 (chainOfInput (dBlocks stT) (RefId ''b'')) EXIT_PC stT = Some (fPc, stF)
      \<and> dStates st2
          = dStates stF @ [branchState (- 3333333333333) EXIT_PC (RefId ''c'') tPc fPc])
   \<and> (\<exists>st'. decomposeChain 2 [''if1''] EXIT_PC (initialDstate exIfElseMap exDraws)
           = Some (- 3333333333333, st')
     \<and> dStates st' = [plainState (- 5000000000000) [''a''] EXIT_PC False,
                      plainState (- 6000000000000) [''b''] EXIT_PC False,
                      branchState (- 3333333333333) EXIT_PC (RefId ''c'')
                        (- 5000000000000) (- 6000000000000)])"
proof -
  from exIfElse_returns obtain st2 where
    r: "decomposeIfElse (decomposeChain 1) exIfElseBlock ''if1'' EXIT_PC
          (initialDstate exIfElseMap exDraws) = Some (- 3333333333333, st2)"
    by (cases "decomposeIfElse (decomposeChain 1) exIfElseBlock ''if1'' EXIT_PC
          (initialDstate exIfElseMap exDraws)") auto
  have i: "inputOf exIfElseBlock ''SUBSTACK'' = RefId ''a''"
    "inputOf exIfElseBlock ''SUBSTACK2'' = RefId ''b''"
    "inputOf exIfElseBlock ''CONDITION'' = RefId ''c''"
    by (simp_all add: inputOf_def exIfElseBlock_def)
  note t = if_else_one_branch_state[of "decomposeChain 1" exIfElseBlock "''if1''" EXIT_PC
      "initialDstate exIfElseMap exDraws" "- 3333333333333" st2
      exIfElseMap "''if1''" "RefId ''c''" "''a''" "''b''" exDraws "- 3333333333333"
      "exDraws\<lparr>rndPos := 2\<rparr>" "- 5000000000000" "exDraws\<lparr>rndPos := 3\<rparr>"
      "- 6000000000000" "exDraws\<lparr>rndPos := 4\<rparr>" 0]
  from t r i have 1: "\<exists>st1 tPc stT fPc stF.
      allocPc (initialDstate exIfElseMap exDraws) = Some (- 3333333333333, st1)
      \<and> decomposeChain 1 (chainOfInput (dBlocks st1) (RefId ''a'')) EXIT_PC st1 = Some (tPc, stT)
      \<and> decomposeChain 1 (chainOfInput (dBlocks stT) (RefId ''b'')) EXIT_PC stT = Some (fPc, stF)
      \<and> dStates st2
          = dStates stF @ [branchState (- 3333333333333) EXIT_PC (RefId ''c'') tPc fPc]"
    by simp
  from t exDraws_alloc1 exDraws_alloc2 exDraws_alloc3 exIfElseMap_shape
  have 2: "\<exists>st'. decomposeChain 2 [''if1''] EXIT_PC (initialDstate exIfElseMap exDraws)
           = Some (- 3333333333333, st')
     \<and> dStates st' = [plainState (- 5000000000000) [''a''] EXIT_PC False,
                      plainState (- 6000000000000) [''b''] EXIT_PC False,
                      branchState (- 3333333333333) EXIT_PC (RefId ''c'')
                        (- 5000000000000) (- 6000000000000)]"
    by (auto simp: numeral_2_eq_2)
  from r 1 2 show ?thesis by blast
qed

subsection \<open>Forever loops\<close>

lemma forever_body:
  assumes "truthy (inputOf block ''SUBSTACK'')"
    and "decomposeForever rec block bid cont st = Some (e, st2)"
  shows "\<exists>yr s1 sB. allocPc st = Some (yr, s1)
     \<and> rec (chainOfInput (dBlocks st) (inputOf block ''SUBSTACK'')) yr s1 = Some (e, sB)
     \<and> dStates st2 = dStates sB \<and> dRedirects st2 = (dRedirects sB)(yr \<mapsto> e)"
  using assms unfolding decomposeForever_def
  by (auto simp: bind_eq_Some_conv setRedirect_def onBlocks_def)

lemma forever_empty:
  assumes "\<not> truthy (inputOf block ''SUBSTACK'')"
    and "decomposeForever rec block bid cont st = Some (e, st2)"
  shows "dStates st2 = dStates st @ [plainState e [] e False] \<and> dRedirects st2 e = Some e
     \<and> e \<notin> usedPcs st \<and> e \<noteq> EXIT_PC"
proof -
  from assms obtain s1 where a: "allocPc st = Some (e, s1)"
    and s: "st2 = onBlocks (deleteBlock bid)
                 (setRedirect e e (pushState (plainState e [] e False) s1))"
    unfolding decomposeForever_def by (auto simp: bind_eq_Some_conv)
  from allocPc_result[OF a] s show ?thesis by simp
qed

lemma forever_no_fallthrough:
  "decomposeForever rec block bid cont st = decomposeForever rec block bid cont' st"
  by (simp add: decomposeForever_def)

lemma forever_scenario:
  assumes sc: "foreverOfSingle bm fid a"
    and a1: "allocLoop {} g = Some (yr, g1)"
    and a2: "allocLoop {yr} g1 = Some (p, g2)"
  shows "\<exists>st. decomposeChain (Suc (Suc n)) [fid] cont (initialDstate bm g) = Some (p, st)
      \<and> dStates st = [plainState p [a] yr False]
      \<and> dRedirects st = [yr \<mapsto> p]"
proof -
  from sc obtain blk where blk: "getFullBlock bm fid = Some blk"
    "opcode blk = ''control_forever''" "inputOf blk ''SUBSTACK'' = RefId a"
    and sa: "singleStatement bm a"
    by (auto simp: foreverOfSingle_def split: option.splits)
  have ne: "a \<noteq> []" using sa by (simp add: singleStatement_def)
  let ?s0 = "initialDstate bm g"
  let ?s1 = "?s0\<lparr>usedPcs := {yr}, dgen := g1\<rparr>"
  have A1: "allocPc ?s0 = Some (yr, ?s1)"
    using allocPc_eq[of ?s0 yr g1] a1 by (simp add: initialDstate_def)
  let ?s2 = "?s1\<lparr>usedPcs := {p, yr}, dgen := g2\<rparr>"
  have A2: "allocPc ?s1 = Some (p, ?s2)"
    using allocPc_eq[of ?s1 p g2] a2 by (simp add: initialDstate_def)
  let ?sB = "pushState (plainState p [a] yr False) (onBlocks (isolateChain [a]) ?s2)"
  have s1a: "singleStatement (dBlocks ?s1) a" using sa by (simp add: initialDstate_def)
  have B: "decomposeChain (Suc n) (walkChain (dBlocks ?s1) a) yr ?s1 = Some (p, ?sB)"
    using s1a A2 by (rule single_chain)
  have B': "decomposeChain (Suc n) (walkChain bm a) yr ?s1 = Some (p, ?sB)"
    using B by (simp add: initialDstate_def)
  have seg: "segmentsFrom bm [fid] [] = [Control fid]"
    using blk by (simp add: isControlOpcode_def C_BLOCK_OPCODES_def)
  have "decomposeForever (decomposeChain (Suc n)) blk fid cont ?s0
        = Some (p, onBlocks (deleteBlock fid) (setRedirect yr p ?sB))"
    unfolding decomposeForever_def
    using A1 B' blk ne by (simp add: chainOfInput_def initialDstate_def)
  then have "decomposeChain (Suc (Suc n)) [fid] cont ?s0
        = Some (p, onBlocks (deleteBlock fid) (setRedirect yr p ?sB))"
    using blk seg
    by (simp add: decomposeChainWith_def decomposeControlBlockWith_def initialDstate_def
        del: segmentsFrom.simps decomposeChain.simps(2))
       (simp add: decomposeChainWith_def decomposeControlBlockWith_def initialDstate_def
        del: segmentsFrom.simps)
  then show ?thesis by (simp add: initialDstate_def)
qed

text \<open>
  Claim C8. \<open>control_forever\<close> with a body allocates a program counter for the end of the
  body, decomposes the body with it as continuation and redirects it to the entry that
  the body returned: the body runs into its own entry again. It pushes no state of its
  own. Without a body it pushes one state whose next program counter is its own, also
  redirected to itself. The continuation of the surrounding chain is never used. For a
  forever loop around one statement, whatever the continuation, the result is the one
  state of the body and the redirect from its next program counter to its own.
\<close>

theorem forever_pure_cycle:
  "(truthy (inputOf block ''SUBSTACK'')
      \<and> decomposeForever rec block bid cont st = Some (e, st2) \<longrightarrow>
      (\<exists>yr s1 sB. allocPc st = Some (yr, s1)
         \<and> rec (chainOfInput (dBlocks st) (inputOf block ''SUBSTACK'')) yr s1 = Some (e, sB)
         \<and> dStates st2 = dStates sB \<and> dRedirects st2 = (dRedirects sB)(yr \<mapsto> e)))
   \<and> (\<not> truthy (inputOf blockE ''SUBSTACK'')
      \<and> decomposeForever recE blockE bidE contE stE = Some (eE, stE2) \<longrightarrow>
      dStates stE2 = dStates stE @ [plainState eE [] eE False] \<and> dRedirects stE2 eE = Some eE
      \<and> eE \<notin> usedPcs stE \<and> eE \<noteq> EXIT_PC)
   \<and> decomposeForever rec block bid cont st = decomposeForever rec block bid cont' st
   \<and> (foreverOfSingle bm fid a \<and> allocLoop {} g = Some (yr', g1)
        \<and> allocLoop {yr'} g1 = Some (p, g2) \<longrightarrow>
      (\<exists>st'. decomposeChain (Suc (Suc n)) [fid] cont'' (initialDstate bm g) = Some (p, st')
         \<and> dStates st' = [plainState p [a] yr' False]
         \<and> dRedirects st' = [yr' \<mapsto> p]))"
  using forever_body[of block rec bid cont st e st2]
    forever_empty[of blockE recE bidE contE stE eE stE2]
    forever_no_fallthrough[of rec block bid cont st cont']
    forever_scenario[of bm fid a g yr' g1 p g2 n cont'']
  by blast

lemma exForeverMap_shape: "foreverOfSingle exForeverMap ''f1'' ''a''"
  by (simp add: foreverOfSingle_def singleStatement_def exForeverMap_def exForeverBlock_def
      getFullBlock_def inputOf_def exSetBlock_def isControlOpcode_def C_BLOCK_OPCODES_def
      TERMINATOR_OPCODES_def)

lemma exForever_returns:
  "map_option fst (decomposeForever (decomposeChain 1) exForeverBlock ''f1'' 7
      (initialDstate exForeverMap exDraws)) = Some (- 5000000000000)"
  by code_simp

lemma exEmptyForever_returns:
  "map_option fst (decomposeForever (decomposeChain 1) exEmptyForeverBlock ''f1'' 7
      (initialDstate exForeverMap exDraws)) = Some (- 3333333333333)"
  by code_simp

theorem forever_pure_cycle_witness:
  "(\<exists>st2 yr s1 sB.
      decomposeForever (decomposeChain 1) exForeverBlock ''f1'' 7
        (initialDstate exForeverMap exDraws) = Some (- 5000000000000, st2)
      \<and> allocPc (initialDstate exForeverMap exDraws) = Some (yr, s1)
      \<and> decomposeChain 1 (chainOfInput exForeverMap (RefId ''a'')) yr s1
          = Some (- 5000000000000, sB)
      \<and> dStates st2 = dStates sB \<and> dRedirects st2 = (dRedirects sB)(yr \<mapsto> - 5000000000000))
   \<and> (\<exists>stE2.
      decomposeForever (decomposeChain 1) exEmptyForeverBlock ''f1'' 7
        (initialDstate exForeverMap exDraws) = Some (- 3333333333333, stE2)
      \<and> dStates stE2 = [plainState (- 3333333333333) [] (- 3333333333333) False]
      \<and> dRedirects stE2 (- 3333333333333) = Some (- 3333333333333))
   \<and> decomposeForever (decomposeChain 1) exForeverBlock ''f1'' 7
        (initialDstate exForeverMap exDraws)
     = decomposeForever (decomposeChain 1) exForeverBlock ''f1'' 8
        (initialDstate exForeverMap exDraws)
   \<and> (\<exists>st'. decomposeChain 2 [''f1''] 7 (initialDstate exForeverMap exDraws)
           = Some (- 5000000000000, st')
      \<and> dStates st' = [plainState (- 5000000000000) [''a''] (- 3333333333333) False]
      \<and> dRedirects st' = [- 3333333333333 \<mapsto> - 5000000000000])"
proof -
  from exForever_returns obtain st2 where
    r: "decomposeForever (decomposeChain 1) exForeverBlock ''f1'' 7
          (initialDstate exForeverMap exDraws) = Some (- 5000000000000, st2)"
    by (cases "decomposeForever (decomposeChain 1) exForeverBlock ''f1'' 7
          (initialDstate exForeverMap exDraws)") auto
  from exEmptyForever_returns obtain stE2 where
    rE: "decomposeForever (decomposeChain 1) exEmptyForeverBlock ''f1'' 7
          (initialDstate exForeverMap exDraws) = Some (- 3333333333333, stE2)"
    by (cases "decomposeForever (decomposeChain 1) exEmptyForeverBlock ''f1'' 7
          (initialDstate exForeverMap exDraws)") auto
  have i: "inputOf exForeverBlock ''SUBSTACK'' = RefId ''a''"
    "inputOf exEmptyForeverBlock ''SUBSTACK'' = NullVal"
    by (simp_all add: inputOf_def exForeverBlock_def exEmptyForeverBlock_def)
  note t = forever_pure_cycle[of exForeverBlock "decomposeChain 1" "''f1''" 7
      "initialDstate exForeverMap exDraws" "- 5000000000000" st2
      exEmptyForeverBlock "decomposeChain 1" "''f1''" 7
      "initialDstate exForeverMap exDraws" "- 3333333333333" stE2 8
      exForeverMap "''f1''" "''a''" exDraws "- 3333333333333"
      "exDraws\<lparr>rndPos := 2\<rparr>" "- 5000000000000" "exDraws\<lparr>rndPos := 3\<rparr>" 0 7]
  from t r i have 1: "\<exists>yr s1 sB.
      allocPc (initialDstate exForeverMap exDraws) = Some (yr, s1)
      \<and> decomposeChain 1 (chainOfInput exForeverMap (RefId ''a'')) yr s1
          = Some (- 5000000000000, sB)
      \<and> dStates st2 = dStates sB \<and> dRedirects st2 = (dRedirects sB)(yr \<mapsto> - 5000000000000)"
    by (simp add: initialDstate_def)
  from t rE i have 2: "dStates stE2 = [plainState (- 3333333333333) [] (- 3333333333333) False]
      \<and> dRedirects stE2 (- 3333333333333) = Some (- 3333333333333)"
    by (simp add: initialDstate_def)
  from t have 3: "decomposeForever (decomposeChain 1) exForeverBlock ''f1'' 7
        (initialDstate exForeverMap exDraws)
     = decomposeForever (decomposeChain 1) exForeverBlock ''f1'' 8
        (initialDstate exForeverMap exDraws)"
    by simp
  from t exDraws_alloc1 exDraws_alloc2 exForeverMap_shape
  have 4: "\<exists>st'. decomposeChain 2 [''f1''] 7 (initialDstate exForeverMap exDraws)
           = Some (- 5000000000000, st')
      \<and> dStates st' = [plainState (- 5000000000000) [''a''] (- 3333333333333) False]
      \<and> dRedirects st' = [- 3333333333333 \<mapsto> - 5000000000000]"
    by (auto simp: numeral_2_eq_2)
  from r rE 1 2 3 4 show ?thesis by blast
qed

subsection \<open>The receiver of the wait signal\<close>

lemma listIndex_one [simp]: "listIndex vm (SNum 1) (Suc k) = Some 1"
  by (simp add: listIndex_def toNumber_def)

lemma gt_zero [simp]: "compareOp vm operator_gt (SNum x) (SNum 0) = (x > 0)"
  by (simp add: compareOp_def)

lemma flow_case_id [simp]:
  "(case x of None \<Rightarrow> None
    | Some (f, rt1) \<Rightarrow> if f = Continue then exec vm procs n args [] rt1 else Some (f, rt1)) = x"
  by (cases x) auto

lemma receiver_shape:
  "hatOpcode (waitReceiver ls g) = ''event_whenbroadcastreceived''
   \<and> hatBroadcast (waitReceiver ls g) = Some (waitBroadcastId ls)
   \<and> scriptBody (waitReceiver ls g)
     = waitReceiverBody ls (savedTidOf g) (proccode (handleWaitDef ls g))"
  by (simp add: waitReceiver_def handleWaitDef_def savedTidOf_def buildWaitHandler_def
      split: prod.splits)

lemma receiver_pop:
  assumes q: "rlists rt (waitQueueId ls) = t # rest"
  shows "exec vm procs n args (waitReceiverBody ls sv hw) rt
     = exec vm procs n args [ProcedureCall hw [ReadVariable sv]] (afterPop ls sv t rest rt)"
  using q
  by (cases rest)
     (simp_all add: waitReceiverBody_def afterPop_def setVar_def setList_def emit_def
        deleteAt_def)

lemma receiver_idle:
  assumes q: "rlists rt (waitQueueId ls) = []"
  shows "exec vm procs n args (waitReceiverBody ls sv hw) rt = Some (Continue, rt)"
  using q by (simp add: waitReceiverBody_def)

lemma afterPop_fields:
  "vars (afterPop ls sv t rest rt) sv = t"
  "rlists (afterPop ls sv t rest rt) (waitQueueId ls) = rest"
  "events (afterPop ls sv t rest rt)
     = events rt @ (if rest \<noteq> [] then [Broadcast (waitBroadcastId ls)] else [])"
  by (simp_all add: afterPop_def setVar_def setList_def emit_def)

text \<open>
  Claim C7. The receiver that \<open>buildWaitHandler\<close> creates listens on the wait signal. Run on
  a queue \<open>t # rest\<close> it stores \<open>t\<close>, leaves \<open>rest\<close> in the queue, sends the wait signal again if
  and only if \<open>rest\<close> is not empty, and then calls the handler that was created with it,
  with \<open>t\<close> as argument. Run on an empty queue it changes nothing.
\<close>

theorem wait_receiver_pops_one:
  "hatOpcode (waitReceiver ls g) = ''event_whenbroadcastreceived''
   \<and> hatBroadcast (waitReceiver ls g) = Some (waitBroadcastId ls)
   \<and> (rlists rt (waitQueueId ls) = t # rest \<longrightarrow>
        exec vm procs n args (scriptBody (waitReceiver ls g)) rt
          = exec vm procs n args
              [ProcedureCall (proccode (handleWaitDef ls g)) [ReadVariable (savedTidOf g)]]
              (afterPop ls (savedTidOf g) t rest rt)
        \<and> vars (afterPop ls (savedTidOf g) t rest rt) (savedTidOf g) = t
        \<and> rlists (afterPop ls (savedTidOf g) t rest rt) (waitQueueId ls) = rest
        \<and> events (afterPop ls (savedTidOf g) t rest rt)
            = events rt @ (if rest \<noteq> [] then [Broadcast (waitBroadcastId ls)] else [])
        \<and> (procs (proccode (handleWaitDef ls g)) = None \<longrightarrow>
             exec vm procs n args (scriptBody (waitReceiver ls g)) rt
               = Some (Continue, emit (Called (proccode (handleWaitDef ls g)) [t])
                                   (afterPop ls (savedTidOf g) t rest rt))))
   \<and> (rlists rt (waitQueueId ls) = [] \<longrightarrow>
        exec vm procs n args (scriptBody (waitReceiver ls g)) rt = Some (Continue, rt))"
proof -
  note s = receiver_shape[of ls g]
  have pop: "rlists rt (waitQueueId ls) = t # rest \<Longrightarrow>
        exec vm procs n args (scriptBody (waitReceiver ls g)) rt
          = exec vm procs n args
              [ProcedureCall (proccode (handleWaitDef ls g)) [ReadVariable (savedTidOf g)]]
              (afterPop ls (savedTidOf g) t rest rt)"
    using s by (simp add: receiver_pop)
  have idle: "rlists rt (waitQueueId ls) = [] \<Longrightarrow>
        exec vm procs n args (scriptBody (waitReceiver ls g)) rt = Some (Continue, rt)"
    using s by (simp add: receiver_idle)
  have call: "procs (proccode (handleWaitDef ls g)) = None \<Longrightarrow>
      exec vm procs n args
              [ProcedureCall (proccode (handleWaitDef ls g)) [ReadVariable (savedTidOf g)]]
              (afterPop ls (savedTidOf g) t rest rt)
       = Some (Continue, emit (Called (proccode (handleWaitDef ls g)) [t])
                                   (afterPop ls (savedTidOf g) t rest rt))"
    by (simp add: afterPop_fields)
  show ?thesis using s pop idle call afterPop_fields[of ls "savedTidOf g" t rest rt]
    by (simp del: exec.simps execStmt.simps)
qed

theorem wait_receiver_pops_one_witness:
  "exec exVM (\<lambda>p. None) 0 exArgs (scriptBody (waitReceiver exLists exDraws)) exQueueRt
     = Some (Continue, emit (Called (proccode (handleWaitDef exLists exDraws)) [SText ''t1''])
         (afterPop exLists (savedTidOf exDraws) (SText ''t1'') [SText ''t2''] exQueueRt))
   \<and> rlists (afterPop exLists (savedTidOf exDraws) (SText ''t1'') [SText ''t2''] exQueueRt)
       ''waitQueue'' = [SText ''t2'']
   \<and> events (afterPop exLists (savedTidOf exDraws) (SText ''t1'') [SText ''t2''] exQueueRt)
       = [Broadcast ''waitBroadcast'']
   \<and> exec exVM (\<lambda>p. None) 0 exArgs (scriptBody (waitReceiver exLists exDraws)) exIdleRt
     = Some (Continue, exIdleRt)"
proof -
  have q: "rlists exQueueRt (waitQueueId exLists) = [SText ''t1'', SText ''t2'']"
    and i: "rlists exIdleRt (waitQueueId exLists) = []"
    and n: "waitBroadcastId exLists = ''waitBroadcast''" "waitQueueId exLists = ''waitQueue''"
    and e: "events exQueueRt = []"
    by (simp_all add: exLists_def exQueueRt_def exIdleRt_def)
  note t1 = wait_receiver_pops_one[of exLists exDraws exQueueRt "SText ''t1''"
      "[SText ''t2'']" exVM "\<lambda>p. None" 0 exArgs]
  note t2 = wait_receiver_pops_one[of exLists exDraws exIdleRt "SText ''t1''"
      "[SText ''t2'']" exVM "\<lambda>p. None" 0 exArgs]
  from t1 q n e have 1:
    "exec exVM (\<lambda>p. None) 0 exArgs (scriptBody (waitReceiver exLists exDraws)) exQueueRt
     = Some (Continue, emit (Called (proccode (handleWaitDef exLists exDraws)) [SText ''t1''])
         (afterPop exLists (savedTidOf exDraws) (SText ''t1'') [SText ''t2''] exQueueRt))"
    "rlists (afterPop exLists (savedTidOf exDraws) (SText ''t1'') [SText ''t2''] exQueueRt)
       ''waitQueue'' = [SText ''t2'']"
    "events (afterPop exLists (savedTidOf exDraws) (SText ''t1'') [SText ''t2''] exQueueRt)
       = [Broadcast ''waitBroadcast'']"
    by (auto simp del: exec.simps execStmt.simps)
  from t2 i have 2:
    "exec exVM (\<lambda>p. None) 0 exArgs (scriptBody (waitReceiver exLists exDraws)) exIdleRt
     = Some (Continue, exIdleRt)"
    by (simp del: exec.simps execStmt.simps)
  from 1 2 show ?thesis by simp
qed

subsection \<open>Decoy states\<close>






lemma eq_zero [simp]: "compareOp vm operator_equals (SNum x) (SNum 0) = (x = 0)"
  by (simp add: compareOp_def)








end
